theory Spec2Isabelle
  imports Main "HOL-Library.Char_ord" "HOL-Library.Log_Nat"
begin

section \<open>Postal code validation\<close>

text \<open>
  Both services validate a postal code (CEP) with
  \<^verbatim>\<open>regexp.MatchString("^[0-9]{8}$", cep)\<close>.  The pattern language needed for this
  expression is small: the two text anchors and a character range; the counted
  repetition \<^verbatim>\<open>{8}\<close> is eight copies of the range.  A Go string is a sequence of bytes,
  here a \<^typ>\<open>char list\<close>.  The range \<^verbatim>\<open>[0-9]\<close> only accepts the one-byte runes
  \<^verbatim>\<open>0x30..0x39\<close>, so matching byte by byte and rune by rune agree for this pattern.
\<close>

datatype regex_item = BeginText | EndText | CharRange char char

text \<open>
  \<open>match_here items at_start s\<close>: the items match a prefix of \<open>s\<close>, where
  \<open>at_start\<close> tells whether \<open>s\<close> is the whole text.  Without the multi-line flag,
  \<^verbatim>\<open>^\<close> holds only at the beginning and \<^verbatim>\<open>$\<close> only at the end of the text.
\<close>

fun match_here :: "regex_item list \<Rightarrow> bool \<Rightarrow> string \<Rightarrow> bool" where
  "match_here [] at_start s = True"
| "match_here (BeginText # items) at_start s = (at_start \<and> match_here items at_start s)"
| "match_here (EndText # items) at_start s = (s = [] \<and> match_here items at_start s)"
| "match_here (CharRange lo hi # items) at_start [] = False"
| "match_here (CharRange lo hi # items) at_start (c # cs) =
     (lo \<le> c \<and> c \<le> hi \<and> match_here items False cs)"

text \<open>\<^verbatim>\<open>MatchString\<close> reports whether the text contains a match at any position.\<close>

fun match_from :: "regex_item list \<Rightarrow> bool \<Rightarrow> string \<Rightarrow> bool" where
  "match_from items at_start [] = match_here items at_start []"
| "match_from items at_start (c # cs) =
     (match_here items at_start (c # cs) \<or> match_from items False cs)"

definition MatchString :: "regex_item list \<Rightarrow> string \<Rightarrow> bool" where
  "MatchString items s = match_from items True s"

definition cep_pattern :: "regex_item list" where
  "cep_pattern = [BeginText] @ replicate 8 (CharRange (CHR ''0'') (CHR ''9'')) @ [EndText]"

text \<open>Orchestrator (service B), \<^verbatim>\<open>isValidCEP\<close>.\<close>

definition isValidCEP :: "string \<Rightarrow> bool" where
  "isValidCEP cep = MatchString cep_pattern cep"

text \<open>Gateway (service A), its own copy of \<^verbatim>\<open>isValidCEP\<close>.\<close>

definition gateway_isValidCEP :: "string \<Rightarrow> bool" where
  "gateway_isValidCEP cep = MatchString cep_pattern cep"

definition is_ascii_digit :: "char \<Rightarrow> bool" where
  "is_ascii_digit c = (CHR ''0'' \<le> c \<and> c \<le> CHR ''9'')"

section \<open>Binary64 floating point\<close>

text \<open>
  Go's \<^verbatim>\<open>float64\<close> is IEEE 754 binary64.  A finite value is the rational number it
  denotes; the sign of a zero is not kept (no operation below tells the two zeros apart
  except the printed sign of a zero temperature).  Every arithmetic operation computes
  the exact result and rounds it to the nearest representable value, ties to even.
\<close>

datatype float64 = Finite rat | PosInf | NegInf | NaN

text \<open>\<open>ilog2 x\<close> is the binary exponent of a positive \<open>x\<close>: \<open>2 powi ilog2 x \<le> x < 2 powi (ilog2 x + 1)\<close>.\<close>

definition ilog2 :: "rat \<Rightarrow> int" where
  "ilog2 x = (if 1 \<le> x then bitlen \<lfloor>x\<rfloor> - 1 else - bitlen (\<lceil>1 / x\<rceil> - 1))"

definition round_half_even :: "rat \<Rightarrow> int" where
  "round_half_even q =
     (let f = \<lfloor>q\<rfloor>; r = q - of_int f
      in if r < 1 / 2 then f else if 1 / 2 < r then f + 1 else if even f then f else f + 1)"

text \<open>
  Rounding to 53 significant bits, as if the exponent had no upper bound; below
  \<open>2 powi (- 1022)\<close> the spacing stays that of the subnormal numbers.
\<close>

definition round_unbounded :: "rat \<Rightarrow> rat" where
  "round_unbounded x =
     (if x = 0 then 0
      else let e = max (ilog2 \<bar>x\<bar>) (- 1022);
               ulp = 2 powi (e - 52)
           in of_int (round_half_even (x / ulp)) * ulp)"

text \<open>A rounded result of magnitude \<open>2 powi 1024\<close> or more is an infinity.\<close>

definition round_f64 :: "rat \<Rightarrow> float64" where
  "round_f64 x =
     (let y = round_unbounded x
      in if 2 powi 1024 \<le> \<bar>y\<bar> then (if 0 < x then PosInf else NegInf) else Finite y)"

fun f64_neg :: "float64 \<Rightarrow> float64" where
  "f64_neg (Finite x) = Finite (- x)"
| "f64_neg PosInf = NegInf"
| "f64_neg NegInf = PosInf"
| "f64_neg NaN = NaN"

fun f64_add :: "float64 \<Rightarrow> float64 \<Rightarrow> float64" where
  "f64_add NaN b = NaN"
| "f64_add a NaN = NaN"
| "f64_add (Finite x) (Finite y) = round_f64 (x + y)"
| "f64_add PosInf NegInf = NaN"
| "f64_add NegInf PosInf = NaN"
| "f64_add PosInf b = PosInf"
| "f64_add NegInf b = NegInf"
| "f64_add a PosInf = PosInf"
| "f64_add a NegInf = NegInf"

text \<open>An infinity times \<open>x\<close>, by the sign of \<open>x\<close>.\<close>

definition inf_times :: "float64 \<Rightarrow> rat \<Rightarrow> float64" where
  "inf_times i x = (if x = 0 then NaN else if 0 < x then i else f64_neg i)"

fun f64_mul :: "float64 \<Rightarrow> float64 \<Rightarrow> float64" where
  "f64_mul NaN b = NaN"
| "f64_mul a NaN = NaN"
| "f64_mul (Finite x) (Finite y) = round_f64 (x * y)"
| "f64_mul (Finite x) b = inf_times b x"
| "f64_mul a (Finite y) = inf_times a y"
| "f64_mul PosInf b = b"
| "f64_mul NegInf b = f64_neg b"

text \<open>
  The Go specification lets an implementation fuse \<^verbatim>\<open>x*y + z\<close> into one operation that
  rounds once (the compiler does so on arm64, ppc64le, s390x and amd64 v3).
\<close>

fun f64_fma :: "float64 \<Rightarrow> float64 \<Rightarrow> float64 \<Rightarrow> float64" where
  "f64_fma (Finite x) (Finite y) (Finite z) = round_f64 (x * y + z)"
| "f64_fma a b c = f64_add (f64_mul a b) c"

definition is_finite :: "float64 \<Rightarrow> bool" where
  "is_finite a = (case a of Finite x \<Rightarrow> True | _ \<Rightarrow> False)"

section \<open>HTTP messages and the response writer\<close>

text \<open>A Go \<^verbatim>\<open>error\<close> is observed only through its text, \<^verbatim>\<open>err.Error()\<close>.\<close>

type_synonym go_error = string

text \<open>
  The errors of the library calls have the shapes their packages give them.
  \<^verbatim>\<open>http.NewRequestWithContext\<close> with the method \<^verbatim>\<open>GET\<close> fails only when the URL does not
  parse, and \<^verbatim>\<open>client.Do\<close> documents that any error it returns is a \<^verbatim>\<open>*url.Error\<close>: the
  operation, the URL and the text of the underlying error, printed as
  \<^verbatim>\<open>Op "URL": Err\<close> (the escapes that \<^verbatim>\<open>%q\<close> puts inside the quotation marks are left out).
\<close>

datatype url_error = URLError string string string

definition Quote :: "string \<Rightarrow> string" where
  "Quote s = CHR 0x22 # s @ [CHR 0x22]"

fun url_error_text :: "url_error \<Rightarrow> go_error" where
  "url_error_text (URLError op url err) = op @ '' '' @ Quote url @ '': '' @ err"

text \<open>
  \<^verbatim>\<open>json.Unmarshal\<close> into a pointer to a structure returns a \<^verbatim>\<open>*json.SyntaxError\<close>, with
  one of the scanner's messages, or a \<^verbatim>\<open>*json.UnmarshalTypeError\<close> naming the JSON value
  and the Go target.
\<close>

datatype json_error =
  InvalidCharacter string | UnexpectedEndOfJSON | ExceededMaxDepth
  | UnmarshalTypeError string string

fun json_error_text :: "json_error \<Rightarrow> go_error" where
  "json_error_text (InvalidCharacter rest) = ''invalid character '' @ rest"
| "json_error_text UnexpectedEndOfJSON = ''unexpected end of JSON input''"
| "json_error_text ExceededMaxDepth = ''exceeded max depth''"
| "json_error_text (UnmarshalTypeError v t) = ''json: cannot unmarshal '' @ v @ '' into Go '' @ t"

text \<open>
  Reading a response body fails with \<^verbatim>\<open>io.ErrUnexpectedEOF\<close>, with the error of the
  request's context, with one of the errors of the chunked-encoding reader, or with an
  error of the network, TLS, HTTP or decompression layer, whose text is a qualifier, a
  colon and a message (\<^verbatim>\<open>read tcp ...: connection reset by peer\<close>,
  \<^verbatim>\<open>net/http: request canceled\<close>, \<^verbatim>\<open>stream error: ...\<close>, \<^verbatim>\<open>tls: ...\<close>, \<^verbatim>\<open>gzip: invalid header\<close>).
\<close>

datatype read_error =
  ErrUnexpectedEOF | Canceled | DeadlineExceeded
  | MalformedChunkedEncoding | InvalidByteInChunkLength | ChunkLengthTooLarge | LineTooLong
  | Qualified string string

fun read_error_text :: "read_error \<Rightarrow> go_error" where
  "read_error_text ErrUnexpectedEOF = ''unexpected EOF''"
| "read_error_text Canceled = ''context canceled''"
| "read_error_text DeadlineExceeded = ''context deadline exceeded''"
| "read_error_text MalformedChunkedEncoding = ''malformed chunked encoding''"
| "read_error_text InvalidByteInChunkLength = ''invalid byte in chunk length''"
| "read_error_text ChunkLengthTooLarge = ''http chunk length too large''"
| "read_error_text LineTooLong = ''header line too long''"
| "read_error_text (Qualified q msg) = q @ '': '' @ msg"

definition LF :: char where
  "LF = CHR 0x0A"

text \<open>
  An \<^verbatim>\<open>http.Response\<close> as the client hands it over: status code, header map (its
  entries in the order a \<^verbatim>\<open>range\<close> visits them) and the bytes the body delivers, with
  the error that ends the body stream, if it does not end with EOF.
\<close>

record http_response =
  StatusCode :: nat
  Header :: "(string \<times> string list) list"
  Body :: string
  BodyErr :: "read_error option"

definition ReadAll :: "http_response \<Rightarrow> go_error + string" where
  "ReadAll resp =
     (case BodyErr resp of Some e \<Rightarrow> Inl (read_error_text e) | None \<Rightarrow> Inr (Body resp))"

text \<open>
  The \<^verbatim>\<open>http.ResponseWriter\<close>: the header map the handler edits, and what has gone to
  the caller: the status and the headers fixed by the first \<^verbatim>\<open>WriteHeader\<close>, then the
  body bytes, and before them the informational (1xx) status lines.  Headers the server
  adds by itself (\<^verbatim>\<open>Date\<close>, \<^verbatim>\<open>Content-Length\<close>) are not part of it, and the caller's
  connection accepts every write.  \<open>panicked\<close> tells that the handler has panicked in a
  call on the writer: it runs no further statement, and the server closes the
  connection with what has gone out so far.
\<close>

record ResponseWriter =
  header :: "string \<rightharpoonup> string list"
  wroteHeader :: bool
  status :: nat
  sent_header :: "string \<rightharpoonup> string list"
  body :: string
  interim :: "nat list"
  panicked :: bool

definition new_writer :: ResponseWriter where
  "new_writer = \<lparr>header = Map.empty, wroteHeader = False, status = 0,
     sent_header = Map.empty, body = [], interim = [], panicked = False\<rparr>"

definition Header_Set :: "string \<Rightarrow> string \<Rightarrow> ResponseWriter \<Rightarrow> ResponseWriter" where
  "Header_Set k v w = w\<lparr>header := (header w)(k \<mapsto> [v])\<rparr>"

text \<open>
  \<^verbatim>\<open>Header.Add\<close> appends a value under the canonical form of the key; the keys of a
  response read from the wire are canonical already, so the key is kept as it is.
\<close>

definition Header_Add :: "string \<Rightarrow> string \<Rightarrow> ResponseWriter \<Rightarrow> ResponseWriter" where
  "Header_Add k v w =
     w\<lparr>header := (header w)(k \<mapsto> (case header w k of None \<Rightarrow> [] | Some vs \<Rightarrow> vs) @ [v])\<rparr>"

text \<open>
  A second \<^verbatim>\<open>WriteHeader\<close> is a superfluous call: the server logs it and ignores it.
  Otherwise a code that does not have three digits makes \<^verbatim>\<open>WriteHeader\<close> panic
  (\<^verbatim>\<open>invalid WriteHeader code\<close>), and a 1xx code other than 101 sends an informational status
  line and leaves the final status open.
\<close>

definition WriteHeader :: "nat \<Rightarrow> ResponseWriter \<Rightarrow> ResponseWriter" where
  "WriteHeader code w =
     (if wroteHeader w then w
      else if code < 100 \<or> 999 < code then w\<lparr>panicked := True\<rparr>
      else if code \<le> 199 \<and> code \<noteq> 101 then w\<lparr>interim := interim w @ [code]\<rparr>
      else w\<lparr>wroteHeader := True, status := code, sent_header := header w\<rparr>)"

definition Write :: "string \<Rightarrow> ResponseWriter \<Rightarrow> ResponseWriter" where
  "Write bs w = (let w' = WriteHeader 200 w in w'\<lparr>body := body w' @ bs\<rparr>)"

text \<open>
  \<^verbatim>\<open>http.Error(w, msg, code)\<close> sets the plain-text headers, writes the status and
  prints the message as one line (\<^verbatim>\<open>fmt.Fprintln\<close>).
\<close>

definition http_Error :: "string \<Rightarrow> nat \<Rightarrow> ResponseWriter \<Rightarrow> ResponseWriter" where
  "http_Error msg code w =
     (let w' = WriteHeader code
                 (Header_Set ''X-Content-Type-Options'' ''nosniff''
                   (Header_Set ''Content-Type'' ''text/plain; charset=utf-8'' w))
      in if panicked w' then w' else Write (msg @ [LF]) w')"

definition StatusOK :: nat where "StatusOK = 200"
definition StatusBadRequest :: nat where "StatusBadRequest = 400"
definition StatusNotFound :: nat where "StatusNotFound = 404"
definition StatusUnprocessableEntity :: nat where "StatusUnprocessableEntity = 422"
definition StatusInternalServerError :: nat where "StatusInternalServerError = 500"

section \<open>The Orchestrator (service B)\<close>

record ViaCEPResponse =
  Localidade :: string
  Erro :: string

text \<open>\<^verbatim>\<open>WeatherAPIResponse\<close>: the nested field \<^verbatim>\<open>Current.TempC\<close>.\<close>

record WeatherAPIResponse =
  Current_TempC :: float64

record FinalResponse =
  City :: string
  TempC :: float64
  TempF :: float64
  TempK :: float64

text \<open>
  The library functions the service calls and whose code is not part of the
  repository are parameters: the URL parsing of \<^verbatim>\<open>http.NewRequestWithContext\<close> (the error
  it reports for a URL, if any), \<^verbatim>\<open>json.Unmarshal\<close> into each of the two provider
  structures, \<^verbatim>\<open>url.QueryEscape\<close>, the JSON text of a \<^verbatim>\<open>FinalResponse\<close> whose numbers
  are finite, and whether the compiler fuses a multiplication with the addition that
  follows it.
\<close>

record lib =
  url_Parse :: "string \<Rightarrow> url_error option"
  decode_ViaCEP :: "string \<Rightarrow> json_error + ViaCEPResponse"
  decode_Weather :: "string \<Rightarrow> json_error + WeatherAPIResponse"
  QueryEscape :: "string \<Rightarrow> string"
  Marshal_FinalResponse :: "FinalResponse \<Rightarrow> string"
  fused_multiply_add :: bool

text \<open>The error values of these calls, as the program sees them.\<close>

definition NewRequest_error :: "lib \<Rightarrow> string \<Rightarrow> go_error option" where
  "NewRequest_error l url = map_option url_error_text (url_Parse l url)"

definition Unmarshal_ViaCEP :: "lib \<Rightarrow> string \<Rightarrow> go_error + ViaCEPResponse" where
  "Unmarshal_ViaCEP l bytes =
     (case decode_ViaCEP l bytes of Inl err \<Rightarrow> Inl (json_error_text err) | Inr v \<Rightarrow> Inr v)"

definition Unmarshal_Weather :: "lib \<Rightarrow> string \<Rightarrow> go_error + WeatherAPIResponse" where
  "Unmarshal_Weather l bytes =
     (case decode_Weather l bytes of Inl err \<Rightarrow> Inl (json_error_text err) | Inr v \<Rightarrow> Inr v)"

text \<open>
  The surroundings of one run: the value of the environment variable
  \<^verbatim>\<open>WEATHER_API_KEY\<close> (empty when unset, as \<^verbatim>\<open>os.Getenv\<close> gives it) and what the network
  answers to a \<^verbatim>\<open>GET\<close> of a URL: the round trip behind \<^verbatim>\<open>client.Do\<close>.
\<close>

record env =
  WEATHER_API_KEY :: string
  RoundTrip :: "string \<Rightarrow> url_error + http_response"

definition client_Do :: "env \<Rightarrow> string \<Rightarrow> go_error + http_response" where
  "client_Do e url =
     (case RoundTrip e url of Inl err \<Rightarrow> Inl (url_error_text err) | Inr resp \<Rightarrow> Inr resp)"

text \<open>
  What a request leaves behind besides its response: the URLs requested over the
  network, in order, and the span events.  A span is identified by the number of spans
  started before it; \<open>SpanEnd\<close> is the event that fixes the end of a span.
\<close>

datatype span_event = SpanStart nat string | SpanEnd nat | SetAttributes string string

record state =
  requests :: "string list"
  events :: "span_event list"

definition is_start :: "span_event \<Rightarrow> bool" where
  "is_start ev = (case ev of SpanStart i n \<Rightarrow> True | _ \<Rightarrow> False)"

definition tr_Start :: "string \<Rightarrow> state \<Rightarrow> nat \<times> state" where
  "tr_Start name st =
     (let i = length (filter is_start (events st))
      in (i, st\<lparr>events := events st @ [SpanStart i name]\<rparr>))"

definition span_End :: "nat \<Rightarrow> state \<Rightarrow> state" where
  "span_End i st = st\<lparr>events := events st @ [SpanEnd i]\<rparr>"

definition span_SetAttributes :: "string \<Rightarrow> string \<Rightarrow> state \<Rightarrow> state" where
  "span_SetAttributes k v st = st\<lparr>events := events st @ [SetAttributes k v]\<rparr>"

definition Do :: "env \<Rightarrow> string \<Rightarrow> state \<Rightarrow> (go_error + http_response) \<times> state" where
  "Do e url st = (client_Do e url, st\<lparr>requests := requests st @ [url]\<rparr>)"

text \<open>The body of \<^verbatim>\<open>fetchLocation\<close> between the opening of the span and its deferred end.\<close>

definition fetchLocation_body ::
  "lib \<Rightarrow> env \<Rightarrow> string \<Rightarrow> state \<Rightarrow> (go_error + ViaCEPResponse) \<times> state" where
  "fetchLocation_body l e cep st =
     (let url = ''https://viacep.com.br/ws/'' @ cep @ ''/json/''
      in case NewRequest_error l url of
           Some err \<Rightarrow> (Inl err, st)
         | None \<Rightarrow>
             (case Do e url st of
                (Inl err, st') \<Rightarrow> (Inl err, st')
              | (Inr resp, st') \<Rightarrow>
                  (case ReadAll resp of
                     Inl err \<Rightarrow> (Inl err, st')
                   | Inr bytes \<Rightarrow>
                       (case Unmarshal_ViaCEP l bytes of
                          Inl err \<Rightarrow> (Inl err, st')
                        | Inr viaCEPResponse \<Rightarrow>
                            if Erro viaCEPResponse = ''true''
                            then (Inl ''can not find zipcode'', st')
                            else (Inr viaCEPResponse, st')))))"

definition fetchLocation ::
  "lib \<Rightarrow> env \<Rightarrow> string \<Rightarrow> state \<Rightarrow> (go_error + ViaCEPResponse) \<times> state" where
  "fetchLocation l e cep st =
     (let (span, st1) = tr_Start ''fetchLocation-viacep'' st;
          (res, st2) = fetchLocation_body l e cep st1
      in (res, span_End span st2))"

text \<open>The text \<^verbatim>\<open>WEATHER_API_KEY n~ao definida\<close>, with its \<open>a\<close> with tilde in UTF-8.\<close>

definition key_missing_text :: string where
  "key_missing_text = ''WEATHER_API_KEY n'' @ [CHR 0xC3, CHR 0xA3] @ ''o definida''"

definition fetchWeather_body ::
  "lib \<Rightarrow> env \<Rightarrow> string \<Rightarrow> state \<Rightarrow> (go_error + WeatherAPIResponse) \<times> state" where
  "fetchWeather_body l e city st =
     (let apiKey = WEATHER_API_KEY e
      in if apiKey = [] then (Inl key_missing_text, st)
         else
           let encodedCity = QueryEscape l city;
               url = ''http://api.weatherapi.com/v1/current.json?key='' @ apiKey
                       @ ''&q='' @ encodedCity @ ''&aqi=no''
           in case NewRequest_error l url of
                Some err \<Rightarrow> (Inl err, st)
              | None \<Rightarrow>
                  (case Do e url st of
                     (Inl err, st') \<Rightarrow> (Inl err, st')
                   | (Inr resp, st') \<Rightarrow>
                       (case ReadAll resp of
                          Inl err \<Rightarrow> (Inl (''erro ao ler resposta da WeatherAPI: '' @ err), st')
                        | Inr bytes \<Rightarrow>
                            (case Unmarshal_Weather l bytes of
                               Inl err \<Rightarrow>
                                 (Inl (''erro ao decodificar JSON da WeatherAPI: '' @ err), st')
                             | Inr weatherAPIResponse \<Rightarrow> (Inr weatherAPIResponse, st')))))"

definition fetchWeather ::
  "lib \<Rightarrow> env \<Rightarrow> string \<Rightarrow> state \<Rightarrow> (go_error + WeatherAPIResponse) \<times> state" where
  "fetchWeather l e city st =
     (let (span, st1) = tr_Start ''fetchWeather-weatherapi'' st;
          (res, st2) = fetchWeather_body l e city st1
      in (res, span_End span st2))"

text \<open>
  The conversions of \<^verbatim>\<open>GetWeatherHandler\<close>: \<^verbatim>\<open>tempC*1.8 + 32\<close> and \<^verbatim>\<open>tempC + 273\<close>.  The
  constants are converted to \<^verbatim>\<open>float64\<close>, which rounds \<^verbatim>\<open>1.8\<close>.
\<close>

definition fahrenheit :: "bool \<Rightarrow> float64 \<Rightarrow> float64" where
  "fahrenheit fused tempC =
     (if fused then f64_fma tempC (round_f64 (18 / 10)) (round_f64 32)
      else f64_add (f64_mul tempC (round_f64 (18 / 10))) (round_f64 32))"

definition kelvin :: "float64 \<Rightarrow> float64" where
  "kelvin tempC = f64_add tempC (round_f64 273)"

text \<open>
  \<^verbatim>\<open>json.NewEncoder(w).Encode(response)\<close> first encodes into a buffer, and fails there on
  a number that is not finite (the error names the first one, printed by
  \<^verbatim>\<open>strconv.FormatFloat\<close>); otherwise it writes the text and a line feed at once.
\<close>

definition FormatFloat_special :: "float64 \<Rightarrow> string" where
  "FormatFloat_special a =
     (case a of PosInf \<Rightarrow> ''+Inf'' | NegInf \<Rightarrow> ''-Inf'' | NaN \<Rightarrow> ''NaN'' | Finite x \<Rightarrow> [])"

definition json_Encode :: "lib \<Rightarrow> FinalResponse \<Rightarrow> go_error + string" where
  "json_Encode l response =
     (case filter (\<lambda>a. \<not> is_finite a) [TempC response, TempF response, TempK response] of
        a # _ \<Rightarrow> Inl (''json: unsupported value: '' @ FormatFloat_special a)
      | [] \<Rightarrow> Inr (Marshal_FinalResponse l response @ [LF]))"

definition GetWeatherHandler ::
  "lib \<Rightarrow> env \<Rightarrow> string \<Rightarrow> ResponseWriter \<Rightarrow> state \<Rightarrow> ResponseWriter \<times> state" where
  "GetWeatherHandler l e cep w st =
     (if \<not> isValidCEP cep
      then (http_Error ''invalid zipcode'' StatusUnprocessableEntity w, st)
      else
        let st0 = span_SetAttributes ''cep'' cep st
        in case fetchLocation l e cep st0 of
             (Inl err, st1) \<Rightarrow>
               if err = ''can not find zipcode''
               then (http_Error ''can not find zipcode'' StatusNotFound w, st1)
               else (http_Error err StatusInternalServerError w, st1)
           | (Inr location, st1) \<Rightarrow>
               (case fetchWeather l e (Localidade location) st1 of
                  (Inl err, st2) \<Rightarrow> (http_Error err StatusInternalServerError w, st2)
                | (Inr weather, st2) \<Rightarrow>
                    let tempC = Current_TempC weather;
                        tempF = fahrenheit (fused_multiply_add l) tempC;
                        tempK = kelvin tempC;
                        response = \<lparr>City = Localidade location, TempC = tempC,
                                     TempF = tempF, TempK = tempK\<rparr>;
                        w1 = Header_Set ''Content-Type'' ''application/json'' w;
                        w2 = WriteHeader StatusOK w1
                    in case json_Encode l response of
                         Inl err \<Rightarrow> (http_Error err StatusInternalServerError w2, st2)
                       | Inr bytes \<Rightarrow> (Write bytes w2, st2)))"

section \<open>The Gateway (service A)\<close>

record CEPRequest =
  CEP :: string

text \<open>
  The request body as \<^verbatim>\<open>encoding/json\<close> reads it: a JSON value.  Decoding into a
  \<^verbatim>\<open>CEPRequest\<close> follows the package's rules for a structure with one string field
  tagged \<^verbatim>\<open>cep\<close>: \<^verbatim>\<open>null\<close> changes nothing, an object sets the field from each member
  whose key equals the tag up to the case of its letters, members with other keys
  are skipped, a member value of another type is an error that is kept while decoding
  goes on, and a value that is neither \<^verbatim>\<open>null\<close> nor an object is an error.
\<close>

datatype json =
  JNull | JBool bool | JNumber string | JString string
  | JArray "json list" | JObject "(string \<times> json) list"

fun json_kind :: "json \<Rightarrow> string" where
  "json_kind JNull = ''null''"
| "json_kind (JBool b) = ''bool''"
| "json_kind (JNumber n) = ''number''"
| "json_kind (JString s) = ''string''"
| "json_kind (JArray xs) = ''array''"
| "json_kind (JObject ms) = ''object''"

definition ascii_lower :: "char \<Rightarrow> char" where
  "ascii_lower c =
     (if CHR ''A'' \<le> c \<and> c \<le> CHR ''Z'' then char_of (of_char c + (32::nat)) else c)"

definition is_cep_key :: "string \<Rightarrow> bool" where
  "is_cep_key k = (map ascii_lower k = ''cep'')"

fun decode_members ::
  "(string \<times> json) list \<Rightarrow> go_error option \<times> CEPRequest \<Rightarrow> go_error option \<times> CEPRequest" where
  "decode_members [] acc = acc"
| "decode_members ((k, v) # ms) (err, req) =
     (if is_cep_key k
      then (case v of
              JString s \<Rightarrow> decode_members ms (err, req\<lparr>CEP := s\<rparr>)
            | JNull \<Rightarrow> decode_members ms (err, req)
            | _ \<Rightarrow>
                decode_members ms
                  (case err of
                     None \<Rightarrow> Some (''json: cannot unmarshal '' @ json_kind v
                               @ '' into Go struct field CEPRequest.cep of type string'')
                   | Some first \<Rightarrow> Some first, req))
      else decode_members ms (err, req))"

text \<open>
  \<^verbatim>\<open>json.NewDecoder(r.Body).Decode(&req)\<close>, from the zero request.  The body is either
  the error of reading a JSON value from it (empty or malformed text) or the value read.
\<close>

definition Decode :: "go_error + json \<Rightarrow> go_error + CEPRequest" where
  "Decode b =
     (case b of
        Inl err \<Rightarrow> Inl err
      | Inr JNull \<Rightarrow> Inr \<lparr>CEP = []\<rparr>
      | Inr (JObject ms) \<Rightarrow>
          (case decode_members ms (None, \<lparr>CEP = []\<rparr>) of
             (Some err, req) \<Rightarrow> Inl err
           | (None, req) \<Rightarrow> Inr req)
      | Inr v \<Rightarrow> Inl (''json: cannot unmarshal '' @ json_kind v
                     @ '' into Go value of type main.CEPRequest''))"

text \<open>The relay loop: every value of every header of the response is added to the writer.\<close>

definition copy_headers :: "(string \<times> string list) list \<Rightarrow> ResponseWriter \<Rightarrow> ResponseWriter" where
  "copy_headers hs w = fold (\<lambda>(key, values) w'. fold (Header_Add key) values w') hs w"

text \<open>The two Portuguese error texts of the Gateway, in UTF-8.\<close>

definition create_request_failed_text :: string where
  "create_request_failed_text =
     ''erro ao criar requisi'' @ [CHR 0xC3, CHR 0xA7, CHR 0xC3, CHR 0xA3] @ ''o para o servi''
       @ [CHR 0xC3, CHR 0xA7] @ ''o B''"

definition call_failed_text :: string where
  "call_failed_text = ''erro ao chamar o servi'' @ [CHR 0xC3, CHR 0xA7] @ ''o B''"

text \<open>
  The Gateway's client has the transport \<^verbatim>\<open>otelhttp.NewTransport(http.DefaultTransport)\<close>:
  every round trip runs in a client span.  When the round trip fails the transport ends
  the span; otherwise the span belongs to the response body, which ends it at its end or
  when it is closed, whichever comes first (the SDK ignores the \<^verbatim>\<open>End\<close> of a span that has
  ended).  The handler defers \<^verbatim>\<open>resp.Body.Close()\<close>, so the end of the span is placed there.
\<close>

definition otelhttp_Do ::
  "env \<Rightarrow> string \<Rightarrow> state \<Rightarrow> (go_error + http_response \<times> nat) \<times> state" where
  "otelhttp_Do e url st =
     (let (client_span, st1) = tr_Start ''HTTP GET'' st
      in case Do e url st1 of
           (Inl err, st2) \<Rightarrow> (Inl err, span_End client_span st2)
         | (Inr resp, st2) \<Rightarrow> (Inr (resp, client_span), st2))"

definition Body_Close :: "nat \<Rightarrow> state \<Rightarrow> state" where
  "Body_Close client_span st = span_End client_span st"

definition GetWeatherViaServiceB ::
  "lib \<Rightarrow> env \<Rightarrow> go_error + json \<Rightarrow> ResponseWriter \<Rightarrow> state \<Rightarrow> ResponseWriter \<times> state" where
  "GetWeatherViaServiceB l e b w st =
     (case Decode b of
        Inl err \<Rightarrow> (http_Error ''invalid request body'' StatusBadRequest w, st)
      | Inr req \<Rightarrow>
          if \<not> gateway_isValidCEP (CEP req)
          then (http_Error ''invalid zipcode'' StatusUnprocessableEntity w, st)
          else
            let url = ''http://service-b:8081/weather/'' @ CEP req
            in case NewRequest_error l url of
                 Some err \<Rightarrow>
                   (http_Error create_request_failed_text StatusInternalServerError w, st)
               | None \<Rightarrow>
                   (case otelhttp_Do e url st of
                      (Inl err, st') \<Rightarrow>
                        (http_Error call_failed_text StatusInternalServerError w, st')
                    | (Inr (resp, client_span), st') \<Rightarrow>
                        let w1 = copy_headers (Header resp) w;
                            w2 = WriteHeader (StatusCode resp) w1;
                            w3 = (if panicked w2 then w2 else Write (Body resp) w2)
                        in (w3, Body_Close client_span st')))"

section \<open>Notions used to state the properties\<close>

text \<open>A plain-text body of one line.\<close>

definition text_line :: "string \<Rightarrow> string" where
  "text_line msg = msg @ [LF]"



text \<open>The spans started and the spans ended in a list of events.\<close>

fun started :: "span_event list \<Rightarrow> nat list" where
  "started [] = []"
| "started (SpanStart i n # evs) = i # started evs"
| "started (ev # evs) = started evs"

fun ended :: "span_event list \<Rightarrow> nat list" where
  "ended [] = []"
| "ended (SpanEnd i # evs) = i # ended evs"
| "ended (ev # evs) = ended evs"

text \<open>Every span started is ended exactly once, and nothing else is ended.\<close>

definition closed_exactly_once :: "span_event list \<Rightarrow> bool" where
  "closed_exactly_once evs =
     (distinct (started evs)
      \<and> list_all (\<lambda>i. count_list (ended evs) i = 1) (started evs)
      \<and> list_all (\<lambda>i. i \<in> set (started evs)) (ended evs))"

text \<open>The events a run added to the state it started from.\<close>

definition new_events :: "state \<Rightarrow> state \<Rightarrow> span_event list" where
  "new_events st st' = drop (length (events st)) (events st')"

text \<open>
  The exchange with the address provider, as the specification speaks of it: \<open>Inl err\<close> is a
  transport failure (the request cannot be built or sent, or the body cannot be read) or
  a decode failure, with its error; \<open>Inr v\<close> is the decoded body.
\<close>

definition viacep_exchange :: "lib \<Rightarrow> env \<Rightarrow> string \<Rightarrow> go_error + ViaCEPResponse" where
  "viacep_exchange l e cep =
     (let url = ''https://viacep.com.br/ws/'' @ cep @ ''/json/''
      in case NewRequest_error l url of
           Some err \<Rightarrow> Inl err
         | None \<Rightarrow>
             (case client_Do e url of
                Inl err \<Rightarrow> Inl err
              | Inr resp \<Rightarrow>
                  (case ReadAll resp of
                     Inl err \<Rightarrow> Inl err
                   | Inr bytes \<Rightarrow> Unmarshal_ViaCEP l bytes)))"

text \<open>
  A JSON value that carries no postal code: \<^verbatim>\<open>null\<close>, or an object in which every member
  keyed \<^verbatim>\<open>cep\<close>, in any letter case, is the empty string or \<^verbatim>\<open>null\<close>.
\<close>

definition lacks_cep :: "json \<Rightarrow> bool" where
  "lacks_cep j =
     (case j of
        JNull \<Rightarrow> True
      | JObject ms \<Rightarrow> list_all (\<lambda>(k, v). \<not> is_cep_key k \<or> v = JString [] \<or> v = JNull) ms
      | _ \<Rightarrow> False)"

text \<open>
  The binary64 numbers, and what it is for one of them to be nearest to an exact value:
  this is how the specification's \<open>C \<times> 1.8 + 32\<close> and \<open>C + 273\<close> are read in the native
  floating-point representation.
\<close>

definition is_binary64 :: "rat \<Rightarrow> bool" where
  "is_binary64 z = (\<exists>m e. z = of_int m * 2 powi e \<and> \<bar>m\<bar> < 2 ^ 53 \<and> - 1074 \<le> e \<and> e \<le> 971)"

definition nearest_binary64 :: "rat \<Rightarrow> rat \<Rightarrow> bool" where
  "nearest_binary64 y z = (is_binary64 z \<and> (\<forall>z'. is_binary64 z' \<longrightarrow> \<bar>z - y\<bar> \<le> \<bar>z' - y\<bar>))"

section \<open>A concrete scenario\<close>

text \<open>
  A library and a network on which the functions can be run.  The stand-in decoders
  read the provider bodies \<open>''Sao Paulo''\<close> (a locality), \<open>''not found''\<close> (the provider's
  error flag set to \<open>''true''\<close>), \<open>''flag 1''\<close> (a locality with the flag \<open>''1''\<close>),
  \<open>''20''\<close> (twenty degrees) and \<open>''1.3e308''\<close> (standing for the binary64 number
  \<open>3 * 2 ^ 1022\<close>, about \<open>1.35e308\<close>).
\<close>

definition scenario_lib :: "bool \<Rightarrow> lib" where
  "scenario_lib fused =
     \<lparr>url_Parse = (\<lambda>url. None),
      decode_ViaCEP = (\<lambda>b.
         if b = ''Sao Paulo'' then Inr \<lparr>Localidade = ''Sao Paulo'', Erro = []\<rparr>
         else if b = ''not found'' then Inr \<lparr>Localidade = [], Erro = ''true''\<rparr>
         else if b = ''flag 1'' then Inr \<lparr>Localidade = ''Sao Paulo'', Erro = ''1''\<rparr>
         else Inl UnexpectedEndOfJSON),
      decode_Weather = (\<lambda>b.
         if b = ''20'' then Inr \<lparr>Current_TempC = Finite 20\<rparr>
         else if b = ''1.3e308'' then Inr \<lparr>Current_TempC = Finite (3 * 2 ^ 1022)\<rparr>
         else Inl UnexpectedEndOfJSON),
      QueryEscape = (\<lambda>city. map (\<lambda>c. if c = CHR '' '' then CHR ''+'' else c) city),
      Marshal_FinalResponse = (\<lambda>r. ''city='' @ City r),
      fused_multiply_add = fused\<rparr>"

definition ok_response :: "string \<Rightarrow> http_response" where
  "ok_response b = \<lparr>StatusCode = 200, Header = [(''Content-Type'', [''application/json''])],
     Body = b, BodyErr = None\<rparr>"

text \<open>
  The network: the address provider knows \<open>01001000\<close>, reports \<open>99999999\<close> as not found
  and answers \<open>01001001\<close> with the flag \<open>''1''\<close>; the weather provider answers \<open>weather\<close>
  for the locality; the Orchestrator answers \<open>upstream\<close>; nothing else is reachable.
\<close>

definition scenario_env :: "string \<Rightarrow> string \<Rightarrow> http_response \<Rightarrow> env" where
  "scenario_env key weather upstream =
     \<lparr>WEATHER_API_KEY = key,
      RoundTrip = (\<lambda>url.
         if url = ''https://viacep.com.br/ws/01001000/json/'' then Inr (ok_response ''Sao Paulo'')
         else if url = ''https://viacep.com.br/ws/99999999/json/'' then Inr (ok_response ''not found'')
         else if url = ''https://viacep.com.br/ws/01001001/json/'' then Inr (ok_response ''flag 1'')
         else if url = ''http://api.weatherapi.com/v1/current.json?key='' @ key
                         @ ''&q=Sao+Paulo&aqi=no''
           then Inr (ok_response weather)
         else if url = ''http://service-b:8081/weather/01001000'' then Inr upstream
         else Inl (URLError ''Get'' url ''dial tcp: connection refused''))\<rparr>"

definition fresh :: state where
  "fresh = \<lparr>requests = [], events = []\<rparr>"

section \<open>Properties of the validator\<close>

lemma match_from_anchored:
  "match_from (BeginText # items) False s = False"
  by (induction s) simp_all

lemma MatchString_anchored:
  "MatchString (BeginText # items) s = match_here items True s"
  by (cases s) (simp_all add: MatchString_def match_from_anchored)

lemma match_here_ranges:
  "match_here (replicate n (CharRange lo hi) @ [EndText]) b s =
     (length s = n \<and> list_all (\<lambda>c. lo \<le> c \<and> c \<le> hi) s)"
proof (induction n arbitrary: b s)
  case 0
  show ?case by (cases s) simp_all
next
  case (Suc n)
  show ?case by (cases s) (auto simp add: Suc.IH)
qed

lemma MatchString_cep_pattern:
  "MatchString cep_pattern s = (length s = 8 \<and> list_all is_ascii_digit s)"
  unfolding cep_pattern_def
  by (simp only: append_Cons append_Nil MatchString_anchored match_here_ranges
      is_ascii_digit_def[abs_def])

lemma digit_codes: "(48 \<le> n \<and> n \<le> 57) = (n \<in> {48, 49, 50, 51, 52, 53, 54, 55, 56, 57::nat})"
  by (simp only: insert_iff empty_iff) presburger

lemma of_char_code: "of_char d = (k::nat) \<Longrightarrow> (of_char c = k) = (c = d)"
  by auto

lemma is_ascii_digit_iff: "is_ascii_digit c = (c \<in> set ''0123456789'')"
proof -
  have "is_ascii_digit c = (48 \<le> (of_char c :: nat) \<and> (of_char c :: nat) \<le> 57)"
    by (simp add: is_ascii_digit_def less_eq_char_def)
  also have "\<dots> = ((of_char c :: nat) \<in> {48, 49, 50, 51, 52, 53, 54, 55, 56, 57})"
    by (rule digit_codes)
  also have "\<dots> = (c \<in> set ''0123456789'')"
    by (simp add: of_char_code [of "CHR ''0''" 48] of_char_code [of "CHR ''1''" 49]
        of_char_code [of "CHR ''2''" 50] of_char_code [of "CHR ''3''" 51]
        of_char_code [of "CHR ''4''" 52] of_char_code [of "CHR ''5''" 53]
        of_char_code [of "CHR ''6''" 54] of_char_code [of "CHR ''7''" 55]
        of_char_code [of "CHR ''8''" 56] of_char_code [of "CHR ''9''" 57])
  finally show ?thesis .
qed

lemma list_all_ascii_digit: "list_all is_ascii_digit s = (set s \<subseteq> set ''0123456789'')"
  unfolding list_all_iff is_ascii_digit_iff by blast

section \<open>Rounding to binary64\<close>

lemma ilog2_bounds:
  assumes "0 < x"
  shows "2 powi ilog2 x \<le> x \<and> x < 2 powi (ilog2 x + 1)"
proof (cases "1 \<le> x")
  case True
  define m where "m = \<lfloor>x\<rfloor>"
  have m1: "1 \<le> m" using True by (simp add: m_def)
  then have mpos: "0 < m" by simp
  have b1: "1 \<le> bitlen m" using mpos by (simp add: bitlen_alt_def)
  from bitlen_bounds[OF mpos]
  have lo: "2 ^ nat (bitlen m - 1) \<le> m" and hi: "m < 2 ^ nat (bitlen m)" by auto
  have il: "ilog2 x = bitlen m - 1" using True by (simp add: ilog2_def m_def)
  have "(2::rat) powi (bitlen m - 1) = 2 ^ nat (bitlen m - 1)"
    using b1 by (simp add: power_int_nonneg_exp)
  also have "\<dots> = of_int (2 ^ nat (bitlen m - 1))" by simp
  also have "\<dots> \<le> of_int m" using lo by (simp only: of_int_le_iff)
  also have "\<dots> \<le> x" by (simp add: m_def)
  finally have A: "2 powi ilog2 x \<le> x" by (simp add: il)
  have "m + 1 \<le> 2 ^ nat (bitlen m)" using hi by simp
  then have "(of_int (m + 1) :: rat) \<le> of_int (2 ^ nat (bitlen m))"
    by (simp only: of_int_le_iff)
  moreover have "x < of_int (m + 1)" unfolding m_def by linarith
  ultimately have "x < of_int (2 ^ nat (bitlen m))" by linarith
  moreover have "(2::rat) powi (bitlen m) = of_int (2 ^ nat (bitlen m))"
    using b1 by (simp add: power_int_nonneg_exp)
  ultimately have B: "x < 2 powi (ilog2 x + 1)" by (simp add: il)
  from A B show ?thesis ..
next
  case False
  define y where "y = 1 / x"
  define m where "m = \<lceil>y\<rceil> - 1"
  have y1: "1 < y" using False assms by (simp add: y_def)
  have xy: "x = 1 / y" by (simp add: y_def)
  have "2 \<le> \<lceil>y\<rceil>" using y1 by linarith
  then have mpos: "0 < m" by (simp add: m_def)
  have my: "of_int m < y" "y \<le> of_int m + 1" unfolding m_def by linarith+
  have b1: "1 \<le> bitlen m" using mpos by (simp add: bitlen_alt_def)
  from bitlen_bounds[OF mpos]
  have lo: "2 ^ nat (bitlen m - 1) \<le> m" and hi: "m < 2 ^ nat (bitlen m)" by auto
  have il: "ilog2 x = - bitlen m" using False by (simp add: ilog2_def m_def y_def)
  have "m + 1 \<le> 2 ^ nat (bitlen m)" using hi by simp
  then have "(of_int (m + 1) :: rat) \<le> of_int (2 ^ nat (bitlen m))"
    by (simp only: of_int_le_iff)
  then have yle: "y \<le> 2 ^ nat (bitlen m)" using my by simp
  have "(of_int (2 ^ nat (bitlen m - 1)) :: rat) \<le> of_int m"
    using lo by (simp only: of_int_le_iff)
  then have ygt: "2 ^ nat (bitlen m - 1) < y" using my by (simp only: of_int_power of_int_numeral)
  have p1: "(2::rat) powi (- bitlen m) = 1 / 2 ^ nat (bitlen m)"
    using b1 by (simp add: power_int_minus_divide power_int_nonneg_exp)
  have p2: "(2::rat) powi (- bitlen m + 1) = 1 / 2 ^ nat (bitlen m - 1)"
  proof -
    have "- bitlen m + 1 = - (bitlen m - 1)" by simp
    then show ?thesis using b1
      by (simp only: power_int_minus_divide) (simp add: power_int_nonneg_exp)
  qed
  have "2 powi (- bitlen m) \<le> x"
    unfolding p1 xy using yle y1 by (simp add: frac_le)
  then have A: "2 powi ilog2 x \<le> x" by (simp only: il)
  have "x < 2 powi (- bitlen m + 1)"
    unfolding p2 xy using ygt y1 by (simp add: frac_less2)
  then have B: "x < 2 powi (ilog2 x + 1)" by (simp only: il)
  from A B show ?thesis ..
qed

lemma ilog2_unique:
  assumes "0 < x" "2 powi e \<le> x" "x < 2 powi (e + 1)"
  shows "ilog2 x = e"
proof -
  from ilog2_bounds[OF assms(1)]
  have lo: "2 powi ilog2 x \<le> x" and hi: "x < 2 powi (ilog2 x + 1)" by auto
  have "(2::rat) powi e < 2 powi (ilog2 x + 1)" using assms(2) hi by linarith
  then have 1: "e < ilog2 x + 1"
    using power_int_increasing[of "ilog2 x + 1" e "2::rat"] by (cases "e < ilog2 x + 1") auto
  have "(2::rat) powi ilog2 x < 2 powi (e + 1)" using assms(3) lo by linarith
  then have 2: "ilog2 x < e + 1"
    using power_int_increasing[of "e + 1" "ilog2 x" "2::rat"] by (cases "ilog2 x < e + 1") auto
  from 1 2 show ?thesis by simp
qed

lemma round_half_even_near:
  assumes "\<bar>q - of_int n\<bar> < 1 / 2"
  shows "round_half_even q = n"
proof (cases "of_int n \<le> q")
  case True
  then have "\<lfloor>q\<rfloor> = n" using assms by (intro floor_unique) auto
  then show ?thesis using assms True by (simp add: round_half_even_def Let_def)
next
  case False
  then have f: "\<lfloor>q\<rfloor> = n - 1" using assms by (intro floor_unique) auto
  have "1 / 2 < q - of_int (n - 1)" using assms False by auto
  then show ?thesis using f by (simp add: round_half_even_def Let_def)
qed

lemma round_f64_pos:
  assumes "0 < x" "2 powi e \<le> x" "x < 2 powi (e + 1)" "- 1022 \<le> e"
    and "\<bar>x / 2 powi (e - 52) - of_int n\<bar> < 1 / 2"
  shows "round_f64 x =
          (if (2::rat) powi 1024 \<le> \<bar>of_int n * 2 powi (e - 52)\<bar> then PosInf
           else Finite (of_int n * 2 powi (e - 52)))"
proof -
  have ax: "\<bar>x\<bar> = x" using assms(1) by simp
  have "ilog2 x = e" using assms(1-3) by (rule ilog2_unique)
  then have m: "max (ilog2 \<bar>x\<bar>) (- 1022) = e" using assms(4) by (simp add: ax)
  have r: "round_half_even (x / 2 powi (e - 52)) = n"
    using assms(5) by (rule round_half_even_near)
  have nz: "x \<noteq> 0" using assms(1) by simp
  have ru: "round_unbounded x = of_int n * 2 powi (e - 52)"
    unfolding round_unbounded_def m Let_def r using nz by (simp only: if_False)
  show ?thesis
    unfolding round_f64_def ru Let_def using assms(1) by (simp only: if_True)
qed

lemma round_f64_18_10: "round_f64 (18 / 10) = Finite (8106479329266893 / 4503599627370496)"
  using round_f64_pos [of "18 / 10" 0 8106479329266893] by simp

lemma round_f64_32: "round_f64 32 = Finite 32"
  using round_f64_pos [of 32 5 "32 * 2 ^ 47"] by simp

lemma round_f64_273: "round_f64 273 = Finite 273"
  using round_f64_pos [of 273 8 "273 * 2 ^ 44"] by simp

lemma round_f64_20_mul:
  "round_f64 (20 * (8106479329266893 / 4503599627370496)) = Finite 36"
  using round_f64_pos [of "20 * (8106479329266893 / 4503599627370496)" 5 "36 * 2 ^ 47"] by simp

lemma round_f64_36_add: "round_f64 (36 + 32) = Finite 68"
  using round_f64_pos [of "36 + 32" 6 "68 * 2 ^ 46"] by simp

lemma round_f64_20_fma:
  "round_f64 (20 * (8106479329266893 / 4503599627370496) + 32) = Finite 68"
  using round_f64_pos [of "20 * (8106479329266893 / 4503599627370496) + 32" 6 "68 * 2 ^ 46"]
  by simp

lemma round_f64_20_add: "round_f64 (20 + 273) = Finite 293"
  using round_f64_pos [of "20 + 273" 8 "293 * 2 ^ 44"] by simp

lemma fahrenheit_20: "fahrenheit fused (Finite 20) = Finite 68"
  by (cases fused)
    (simp_all only: fahrenheit_def round_f64_18_10 round_f64_32 f64_fma.simps f64_mul.simps
      f64_add.simps round_f64_20_mul round_f64_36_add round_f64_20_fma if_True if_False)

lemma kelvin_20: "kelvin (Finite 20) = Finite 293"
  by (simp only: kelvin_def round_f64_273 f64_add.simps round_f64_20_add)

lemma round_f64_overflow_mul:
  "round_f64 (3 * 2 ^ 1022 * (8106479329266893 / 4503599627370496)) = PosInf"
  using round_f64_pos [of "3 * 2 ^ 1022 * (8106479329266893 / 4503599627370496)" 1024
      6079859496950170]
  by simp

lemma round_f64_overflow_fma:
  "round_f64 (3 * 2 ^ 1022 * (8106479329266893 / 4503599627370496) + 32) = PosInf"
  using round_f64_pos [of "3 * 2 ^ 1022 * (8106479329266893 / 4503599627370496) + 32" 1024
      6079859496950170]
  by simp

section \<open>Responses written by \<^verbatim>\<open>http.Error\<close> and \<^verbatim>\<open>Write\<close>\<close>

lemma http_Error_new_writer:
  "200 \<le> code \<Longrightarrow> code \<le> 999 \<Longrightarrow> status (http_Error msg code new_writer) = code"
  "200 \<le> code \<Longrightarrow> code \<le> 999 \<Longrightarrow> body (http_Error msg code new_writer) = text_line msg"
  "200 \<le> code \<Longrightarrow> code \<le> 999 \<Longrightarrow> wroteHeader (http_Error msg code new_writer)"
  "200 \<le> code \<Longrightarrow> code \<le> 999 \<Longrightarrow> \<not> panicked (http_Error msg code new_writer)"
  by (simp_all add: http_Error_def Write_def WriteHeader_def Header_Set_def new_writer_def
      text_line_def Let_def)

lemma http_Error_after_header:
  "wroteHeader w \<Longrightarrow> \<not> panicked w \<Longrightarrow> status (http_Error msg code w) = status w"
  "wroteHeader w \<Longrightarrow> \<not> panicked w \<Longrightarrow> body (http_Error msg code w) = body w @ text_line msg"
  "wroteHeader w \<Longrightarrow> \<not> panicked w \<Longrightarrow> sent_header (http_Error msg code w) = sent_header w"
  "wroteHeader w \<Longrightarrow> \<not> panicked w \<Longrightarrow> \<not> panicked (http_Error msg code w)"
  by (simp_all add: http_Error_def Write_def WriteHeader_def Header_Set_def text_line_def Let_def)

lemma success_writer:
  "wroteHeader (WriteHeader StatusOK (Header_Set ''Content-Type'' ''application/json'' new_writer))"
  "status (WriteHeader StatusOK (Header_Set ''Content-Type'' ''application/json'' new_writer)) = 200"
  "body (WriteHeader StatusOK (Header_Set ''Content-Type'' ''application/json'' new_writer)) = []"
  "sent_header (WriteHeader StatusOK (Header_Set ''Content-Type'' ''application/json'' new_writer))
     ''Content-Type'' = Some [''application/json'']"
  "\<not> panicked (WriteHeader StatusOK (Header_Set ''Content-Type'' ''application/json'' new_writer))"
  by (simp_all add: WriteHeader_def Header_Set_def new_writer_def StatusOK_def)

lemma Write_after_header:
  "wroteHeader w \<Longrightarrow> status (Write bs w) = status w"
  "wroteHeader w \<Longrightarrow> body (Write bs w) = body w @ bs"
  "wroteHeader w \<Longrightarrow> sent_header (Write bs w) = sent_header w"
  "wroteHeader w \<Longrightarrow> panicked (Write bs w) = panicked w"
  by (simp_all add: Write_def WriteHeader_def Let_def)

lemma json_Encode_finite:
  "is_finite (TempC r) \<Longrightarrow> is_finite (TempF r) \<Longrightarrow> is_finite (TempK r) \<Longrightarrow>
     json_Encode l r = Inr (Marshal_FinalResponse l r @ [LF])"
  by (simp add: json_Encode_def)

section \<open>The adapters and the Orchestrator handler\<close>

lemma fetchLocation_body_fst:
  "fst (fetchLocation_body l e cep st) = fst (fetchLocation_body l e cep st')"
  by (simp add: fetchLocation_body_def Do_def Let_def split: option.splits sum.splits)

lemma fetchLocation_fst:
  "fst (fetchLocation l e cep st) = fst (fetchLocation_body l e cep st')"
  using fetchLocation_body_fst [of l e cep "snd (tr_Start ''fetchLocation-viacep'' st)" st']
  by (simp add: fetchLocation_def Let_def case_prod_beta)

lemma fetchWeather_body_fst:
  "fst (fetchWeather_body l e city st) = fst (fetchWeather_body l e city st')"
  by (simp add: fetchWeather_body_def Do_def Let_def split: option.splits sum.splits)

lemma fetchWeather_fst:
  "fst (fetchWeather l e city st) = fst (fetchWeather_body l e city st')"
  using fetchWeather_body_fst [of l e city "snd (tr_Start ''fetchWeather-weatherapi'' st)" st']
  by (simp add: fetchWeather_def Let_def case_prod_beta)

lemma GetWeatherHandler_response:
  assumes "isValidCEP cep"
  shows "fst (GetWeatherHandler l e cep w st) =
     (case fst (fetchLocation l e cep sa) of
        Inl err \<Rightarrow>
          if err = ''can not find zipcode''
          then http_Error ''can not find zipcode'' StatusNotFound w
          else http_Error err StatusInternalServerError w
      | Inr location \<Rightarrow>
          (case fst (fetchWeather l e (Localidade location) sb) of
             Inl err \<Rightarrow> http_Error err StatusInternalServerError w
           | Inr weather \<Rightarrow>
               (case json_Encode l
                   \<lparr>City = Localidade location, TempC = Current_TempC weather,
                    TempF = fahrenheit (fused_multiply_add l) (Current_TempC weather),
                    TempK = kelvin (Current_TempC weather)\<rparr> of
                  Inl err \<Rightarrow>
                    http_Error err StatusInternalServerError
                      (WriteHeader StatusOK (Header_Set ''Content-Type'' ''application/json'' w))
                | Inr bytes \<Rightarrow>
                    Write bytes
                      (WriteHeader StatusOK (Header_Set ''Content-Type'' ''application/json'' w)))))"
proof -
  let ?st0 = "span_SetAttributes ''cep'' cep st"
  obtain r1 st1 where f1: "fetchLocation l e cep ?st0 = (r1, st1)" by (cases "fetchLocation l e cep ?st0")
  have r1: "fst (fetchLocation l e cep sa) = r1"
    using fetchLocation_fst [of l e cep sa sa] fetchLocation_fst [of l e cep ?st0 sa] f1 by simp
  show ?thesis
  proof (cases r1)
    case (Inl err)
    then show ?thesis using assms f1 r1 by (simp add: GetWeatherHandler_def Let_def)
  next
    case (Inr location)
    obtain r2 st2 where f2: "fetchWeather l e (Localidade location) st1 = (r2, st2)"
      by (cases "fetchWeather l e (Localidade location) st1")
    have r2: "fst (fetchWeather l e (Localidade location) sb) = r2"
      using fetchWeather_fst [of l e "Localidade location" sb sb]
        fetchWeather_fst [of l e "Localidade location" st1 sb] f2 by simp
    show ?thesis using assms f1 r1 Inr f2 r2
      by (cases r2) (simp_all add: GetWeatherHandler_def Let_def split: sum.splits)
  qed
qed

lemma fetchLocation_body_events:
  "events (snd (fetchLocation_body l e cep st)) = events st"
  by (simp add: fetchLocation_body_def Do_def Let_def split: option.splits sum.splits)

lemma fetchWeather_body_events:
  "events (snd (fetchWeather_body l e city st)) = events st"
  by (simp add: fetchWeather_body_def Do_def Let_def split: option.splits sum.splits)

lemma fetchLocation_events:
  "events (snd (fetchLocation l e cep st)) =
     events st @ [SpanStart (length (filter is_start (events st))) ''fetchLocation-viacep'',
                  SpanEnd (length (filter is_start (events st)))]"
  by (simp add: fetchLocation_def tr_Start_def span_End_def Let_def case_prod_beta
      fetchLocation_body_events)

lemma fetchWeather_events:
  "events (snd (fetchWeather l e city st)) =
     events st @ [SpanStart (length (filter is_start (events st))) ''fetchWeather-weatherapi'',
                  SpanEnd (length (filter is_start (events st)))]"
  by (simp add: fetchWeather_def tr_Start_def span_End_def Let_def case_prod_beta
      fetchWeather_body_events)

lemma GetWeatherHandler_events:
  "events (snd (GetWeatherHandler l e cep w st)) =
     events st @
     (if \<not> isValidCEP cep then []
      else [SetAttributes ''cep'' cep,
            SpanStart (length (filter is_start (events st))) ''fetchLocation-viacep'',
            SpanEnd (length (filter is_start (events st)))] @
           (case fst (fetchLocation l e cep st) of
              Inl err \<Rightarrow> []
            | Inr location \<Rightarrow>
                [SpanStart (Suc (length (filter is_start (events st)))) ''fetchWeather-weatherapi'',
                 SpanEnd (Suc (length (filter is_start (events st))))]))"
proof (cases "isValidCEP cep")
  case False
  then show ?thesis by (simp add: GetWeatherHandler_def)
next
  case True
  let ?st0 = "span_SetAttributes ''cep'' cep st"
  obtain r1 st1 where f1: "fetchLocation l e cep ?st0 = (r1, st1)"
    by (cases "fetchLocation l e cep ?st0")
  have r1: "fst (fetchLocation l e cep st) = r1"
    using fetchLocation_fst [of l e cep st st] fetchLocation_fst [of l e cep ?st0 st] f1 by simp
  have e1: "events st1 = events st @ [SetAttributes ''cep'' cep,
            SpanStart (length (filter is_start (events st))) ''fetchLocation-viacep'',
            SpanEnd (length (filter is_start (events st)))]"
    using fetchLocation_events [of l e cep ?st0] f1
    by (simp add: span_SetAttributes_def is_start_def)
  show ?thesis
  proof (cases r1)
    case (Inl err)
    then show ?thesis using True f1 r1 e1 by (simp add: GetWeatherHandler_def Let_def)
  next
    case (Inr location)
    obtain r2 st2 where f2: "fetchWeather l e (Localidade location) st1 = (r2, st2)"
      by (cases "fetchWeather l e (Localidade location) st1")
    have e2: "events st2 = events st1 @
        [SpanStart (Suc (length (filter is_start (events st)))) ''fetchWeather-weatherapi'',
         SpanEnd (Suc (length (filter is_start (events st))))]"
      using fetchWeather_events [of l e "Localidade location" st1] f2
      by (simp add: e1 is_start_def)
    show ?thesis using True f1 r1 Inr f2 e1 e2
      by (cases r2) (simp_all add: GetWeatherHandler_def Let_def split: sum.splits)
  qed
qed

lemma fetchWeather_body_no_key:
  "WEATHER_API_KEY e = [] \<Longrightarrow> fetchWeather_body l e city st = (Inl key_missing_text, st)"
  by (simp add: fetchWeather_body_def)

lemma fetchLocation_body_requests:
  "fst (fetchLocation_body l e cep st) = Inr location \<Longrightarrow>
     requests (snd (fetchLocation_body l e cep st)) =
       requests st @ [''https://viacep.com.br/ws/'' @ cep @ ''/json/'']"
  by (simp add: fetchLocation_body_def Do_def Let_def split: option.splits sum.splits if_splits)

lemma fetchLocation_requests:
  assumes "fst (fetchLocation l e cep sa) = Inr location"
  shows "requests (snd (fetchLocation l e cep st)) =
       requests st @ [''https://viacep.com.br/ws/'' @ cep @ ''/json/'']"
proof -
  let ?s = "snd (tr_Start ''fetchLocation-viacep'' st)"
  have "fst (fetchLocation_body l e cep ?s) = Inr location"
    using assms fetchLocation_fst [of l e cep sa ?s] by simp
  from fetchLocation_body_requests [OF this]
  show ?thesis
    by (simp add: fetchLocation_def Let_def case_prod_beta span_End_def tr_Start_def)
qed

lemma fetchWeather_no_key:
  "WEATHER_API_KEY e = [] \<Longrightarrow> fst (fetchWeather l e city st) = Inl key_missing_text"
  "WEATHER_API_KEY e = [] \<Longrightarrow> requests (snd (fetchWeather l e city st)) = requests st"
  by (simp_all add: fetchWeather_def Let_def case_prod_beta fetchWeather_body_no_key
      span_End_def tr_Start_def)

lemma otelhttp_Do_events:
  "events (snd (otelhttp_Do e url st)) =
     events st @ [SpanStart (length (filter is_start (events st))) ''HTTP GET''] @
       (case fst (otelhttp_Do e url st) of
          Inl err \<Rightarrow> [SpanEnd (length (filter is_start (events st)))]
        | Inr r \<Rightarrow> [])"
  "fst (otelhttp_Do e url st) = Inr (resp, i) \<Longrightarrow> i = length (filter is_start (events st))"
  by (auto simp add: otelhttp_Do_def Do_def tr_Start_def span_End_def Let_def split: sum.splits)

lemma GetWeatherViaServiceB_events:
  "events (snd (GetWeatherViaServiceB l e b w st)) =
     events st @
     (case Decode b of
        Inl err \<Rightarrow> []
      | Inr req \<Rightarrow>
          if \<not> gateway_isValidCEP (CEP req) then []
          else (case NewRequest_error l (''http://service-b:8081/weather/'' @ CEP req) of
                  Some err \<Rightarrow> []
                | None \<Rightarrow>
                    [SpanStart (length (filter is_start (events st))) ''HTTP GET'',
                     SpanEnd (length (filter is_start (events st)))]))"
proof (cases "Decode b")
  case (Inl err)
  then show ?thesis by (simp add: GetWeatherViaServiceB_def)
next
  case (Inr req)
  let ?url = "''http://service-b:8081/weather/'' @ CEP req"
  obtain r st' where d: "otelhttp_Do e ?url st = (r, st')" by (cases "otelhttp_Do e ?url st")
  have ev: "events st' =
     events st @ [SpanStart (length (filter is_start (events st))) ''HTTP GET''] @
       (case r of Inl err \<Rightarrow> [SpanEnd (length (filter is_start (events st)))] | Inr x \<Rightarrow> [])"
    using otelhttp_Do_events(1) [of e ?url st] d by simp
  show ?thesis
  proof (cases r)
    case (Inl err)
    then show ?thesis using Inr d ev
      by (simp add: GetWeatherViaServiceB_def Let_def split: option.splits)
  next
    case (Inr x)
    obtain resp i where x: "x = (resp, i)" by (cases x)
    have i: "i = length (filter is_start (events st))"
      using otelhttp_Do_events(2) [of e ?url st resp i] d Inr x by simp
    show ?thesis using \<open>Decode b = Inr req\<close> Inr x d ev i
      by (simp add: GetWeatherViaServiceB_def Let_def Body_Close_def span_End_def
          split: option.splits)
  qed
qed

lemma valid_01001000: "isValidCEP ''01001000''" "gateway_isValidCEP ''01001000''"
  by (simp_all add: isValidCEP_def gateway_isValidCEP_def MatchString_cep_pattern is_ascii_digit_def)

lemma scenario_location:
  "fst (fetchLocation (scenario_lib f) (scenario_env k wth up) ''01001000'' st) =
     Inr \<lparr>Localidade = ''Sao Paulo'', Erro = []\<rparr>"
  by (simp add: fetchLocation_def fetchLocation_body_def scenario_lib_def scenario_env_def
      NewRequest_error_def Unmarshal_ViaCEP_def client_Do_def
      Do_def ReadAll_def ok_response_def tr_Start_def span_End_def Let_def)

lemma scenario_weather:
  "fst (fetchWeather (scenario_lib f) (scenario_env (c # k) ''20'' up) ''Sao Paulo'' st) =
     Inr \<lparr>Current_TempC = Finite 20\<rparr>"
  "fst (fetchWeather (scenario_lib f) (scenario_env (c # k) ''1.3e308'' up) ''Sao Paulo'' st) =
     Inr \<lparr>Current_TempC = Finite (3 * 2 ^ 1022)\<rparr>"
  by (simp_all add: fetchWeather_def fetchWeather_body_def scenario_lib_def scenario_env_def
      NewRequest_error_def Unmarshal_Weather_def client_Do_def
      Do_def ReadAll_def ok_response_def tr_Start_def span_End_def Let_def)



lemma fold_Header_Add_rest:
  "wroteHeader (fold (Header_Add k) vs w) = wroteHeader w"
  "status (fold (Header_Add k) vs w) = status w"
  "body (fold (Header_Add k) vs w) = body w"
  "sent_header (fold (Header_Add k) vs w) = sent_header w"
  "interim (fold (Header_Add k) vs w) = interim w"
  "panicked (fold (Header_Add k) vs w) = panicked w"
proof -
  have "wroteHeader (fold (Header_Add k) vs w) = wroteHeader w
    \<and> status (fold (Header_Add k) vs w) = status w
    \<and> body (fold (Header_Add k) vs w) = body w
    \<and> sent_header (fold (Header_Add k) vs w) = sent_header w
    \<and> interim (fold (Header_Add k) vs w) = interim w
    \<and> panicked (fold (Header_Add k) vs w) = panicked w"
  proof (induction vs arbitrary: w)
    case Nil
    show ?case by simp
  next
    case (Cons v vs)
    have "fold (Header_Add k) (v # vs) w = fold (Header_Add k) vs (Header_Add k v w)" by simp
    then show ?case
      using Cons.IH [of "Header_Add k v w"] by (simp only:) (simp add: Header_Add_def)
  qed
  then show "wroteHeader (fold (Header_Add k) vs w) = wroteHeader w"
    "status (fold (Header_Add k) vs w) = status w"
    "body (fold (Header_Add k) vs w) = body w"
    "sent_header (fold (Header_Add k) vs w) = sent_header w"
    "interim (fold (Header_Add k) vs w) = interim w"
    "panicked (fold (Header_Add k) vs w) = panicked w" by simp_all
qed


lemma copy_headers_rest:
  "wroteHeader (copy_headers hs w) = wroteHeader w"
  "status (copy_headers hs w) = status w"
  "body (copy_headers hs w) = body w"
  "sent_header (copy_headers hs w) = sent_header w"
  "interim (copy_headers hs w) = interim w"
  "panicked (copy_headers hs w) = panicked w"
proof -
  have "wroteHeader (copy_headers hs w) = wroteHeader w
    \<and> status (copy_headers hs w) = status w
    \<and> body (copy_headers hs w) = body w
    \<and> sent_header (copy_headers hs w) = sent_header w
    \<and> interim (copy_headers hs w) = interim w
    \<and> panicked (copy_headers hs w) = panicked w"
  proof (induction hs arbitrary: w)
    case Nil
    show ?case by (simp add: copy_headers_def)
  next
    case (Cons h hs)
    obtain key vs where h: "h = (key, vs)" by (cases h)
    have "copy_headers (h # hs) w = copy_headers hs (fold (Header_Add key) vs w)"
      by (simp add: copy_headers_def h)
    then show ?case
      using Cons.IH [of "fold (Header_Add key) vs w"] by (simp add: fold_Header_Add_rest)
  qed
  then show "wroteHeader (copy_headers hs w) = wroteHeader w"
    "status (copy_headers hs w) = status w"
    "body (copy_headers hs w) = body w"
    "sent_header (copy_headers hs w) = sent_header w"
    "interim (copy_headers hs w) = interim w"
    "panicked (copy_headers hs w) = panicked w" by simp_all
qed

lemma url_error_text_not_found: "url_error_text err \<noteq> ''can not find zipcode''"
proof
  assume "url_error_text err = ''can not find zipcode''"
  then have "set (url_error_text err) = set ''can not find zipcode''" by simp
  moreover have "CHR 0x22 \<in> set (url_error_text err)"
    by (cases err) (simp add: Quote_def)
  ultimately show False by auto
qed

lemma json_error_text_not_found: "json_error_text err \<noteq> ''can not find zipcode''"
  by (cases err) simp_all

lemma read_error_text_not_found: "read_error_text err \<noteq> ''can not find zipcode''"
proof
  assume a: "read_error_text err = ''can not find zipcode''"
  show False
  proof (cases err)
    case (Qualified q msg)
    have "CHR '':'' \<in> set (read_error_text err)" by (simp add: Qualified)
    with a show False by auto
  qed (use a in simp_all)
qed

lemma viacep_exchange_not_found: "viacep_exchange l e cep \<noteq> Inl ''can not find zipcode''"
  by (simp add: viacep_exchange_def NewRequest_error_def client_Do_def ReadAll_def
      Unmarshal_ViaCEP_def Let_def url_error_text_not_found json_error_text_not_found
      read_error_text_not_found split: option.splits sum.splits)

lemma fetchLocation_exchange:
  "fst (fetchLocation l e cep st) =
     (case viacep_exchange l e cep of
        Inl err \<Rightarrow> Inl err
      | Inr v \<Rightarrow> if Erro v = ''true'' then Inl ''can not find zipcode'' else Inr v)"
  by (simp add: fetchLocation_fst [of l e cep st st] fetchLocation_body_def viacep_exchange_def
      Do_def Let_def split: option.splits sum.splits)

lemma valid_99999999: "isValidCEP ''99999999''"
  by (simp add: isValidCEP_def MatchString_cep_pattern is_ascii_digit_def)

lemma valid_01001001: "isValidCEP ''01001001''"
  by (simp add: isValidCEP_def MatchString_cep_pattern is_ascii_digit_def)

lemma scenario_exchange:
  "viacep_exchange (scenario_lib f) (scenario_env k wth up) ''99999999'' =
     Inr \<lparr>Localidade = [], Erro = ''true''\<rparr>"
  "viacep_exchange (scenario_lib f) (scenario_env k wth up) ''01001001'' =
     Inr \<lparr>Localidade = ''Sao Paulo'', Erro = ''1''\<rparr>"
  "viacep_exchange (scenario_lib f) (scenario_env k wth up) ''12345678'' =
     Inl (''Get '' @ Quote ''https://viacep.com.br/ws/12345678/json/''
            @ '': dial tcp: connection refused'')"
  by (simp_all add: viacep_exchange_def scenario_lib_def scenario_env_def ReadAll_def
      NewRequest_error_def Unmarshal_ViaCEP_def client_Do_def ok_response_def Let_def)

lemma valid_12345678: "isValidCEP ''12345678''"
  by (simp add: isValidCEP_def MatchString_cep_pattern is_ascii_digit_def)

lemma scenario_location_flag:
  "fst (fetchLocation (scenario_lib f) (scenario_env k wth up) ''01001001'' st) =
     Inr \<lparr>Localidade = ''Sao Paulo'', Erro = ''1''\<rparr>"
  by (simp add: fetchLocation_exchange scenario_exchange)

lemma decode_members_lacking:
  "list_all (\<lambda>(k, v). \<not> is_cep_key k \<or> v = JString [] \<or> v = JNull) ms \<Longrightarrow>
     decode_members ms (err, \<lparr>CEP = []\<rparr>) = (err, \<lparr>CEP = []\<rparr>)"
proof (induction ms)
  case Nil
  show ?case by simp
next
  case (Cons m ms)
  obtain k v where m: "m = (k, v)" by (cases m)
  from Cons.prems have h: "\<not> is_cep_key k \<or> v = JString [] \<or> v = JNull"
    and t: "list_all (\<lambda>(k, v). \<not> is_cep_key k \<or> v = JString [] \<or> v = JNull) ms"
    by (simp_all add: m)
  from h show ?case using Cons.IH [OF t] by (auto simp add: m)
qed

lemma Decode_lacking: "lacks_cep j \<Longrightarrow> Decode (Inr j) = Inr \<lparr>CEP = []\<rparr>"
  by (cases j) (simp_all add: lacks_cep_def Decode_def decode_members_lacking)

lemma empty_not_valid: "\<not> gateway_isValidCEP []"
  by (simp add: gateway_isValidCEP_def MatchString_cep_pattern)

section \<open>Rounding gives a nearest binary64 number\<close>

lemma round_half_even_cases:
  obtains "of_int (round_half_even q) - q = - (q - of_int \<lfloor>q\<rfloor>)" "q - of_int \<lfloor>q\<rfloor> \<le> 1 / 2"
  | "of_int (round_half_even q) - q = 1 - (q - of_int \<lfloor>q\<rfloor>)" "1 / 2 \<le> q - of_int \<lfloor>q\<rfloor>"
proof -
  define f where "f = \<lfloor>q\<rfloor>"
  define r where "r = q - of_int f"
  have n: "round_half_even q =
      (if r < 1 / 2 then f else if 1 / 2 < r then f + 1 else if even f then f else f + 1)"
    by (simp add: round_half_even_def Let_def f_def r_def)
  have "round_half_even q = f \<and> r \<le> 1 / 2 \<or> round_half_even q = f + 1 \<and> 1 / 2 \<le> r"
    unfolding n by auto
  then show ?thesis
  proof
    assume a: "round_half_even q = f \<and> r \<le> 1 / 2"
    then have "of_int (round_half_even q) - q = - r" by (simp add: r_def)
    with a show ?thesis using that(1) by (simp add: r_def f_def)
  next
    assume a: "round_half_even q = f + 1 \<and> 1 / 2 \<le> r"
    then have "of_int (round_half_even q) - q = 1 - r" by (simp add: r_def)
    with a show ?thesis using that(2) by (simp add: r_def f_def)
  qed
qed

lemma round_half_even_half: "\<bar>of_int (round_half_even q) - q\<bar> \<le> 1 / 2"
proof -
  have r: "0 \<le> q - of_int \<lfloor>q\<rfloor>" "q - of_int \<lfloor>q\<rfloor> < 1" by linarith+
  show ?thesis
    by (rule round_half_even_cases [of q]) (use r in linarith)+
qed

lemma round_half_even_nearest:
  "\<bar>of_int (round_half_even q) - q\<bar> \<le> \<bar>of_int j - q\<bar>"
proof -
  define r where "r = q - of_int \<lfloor>q\<rfloor>"
  have r: "0 \<le> r" "r < 1" unfolding r_def by linarith+
  have d: "r \<le> \<bar>of_int j - q\<bar> \<and> 1 - r \<le> \<bar>of_int j - q\<bar> \<or>
           (j \<le> \<lfloor>q\<rfloor> \<and> r \<le> \<bar>of_int j - q\<bar>) \<or> (\<lfloor>q\<rfloor> + 1 \<le> j \<and> 1 - r \<le> \<bar>of_int j - q\<bar>)"
  proof (cases "j \<le> \<lfloor>q\<rfloor>")
    case True
    then have "(of_int j :: rat) \<le> of_int \<lfloor>q\<rfloor>" by (simp only: of_int_le_iff)
    then show ?thesis using True r unfolding r_def by linarith
  next
    case False
    then have "\<lfloor>q\<rfloor> + 1 \<le> j" by simp
    then have "(of_int (\<lfloor>q\<rfloor> + 1) :: rat) \<le> of_int j" by (simp only: of_int_le_iff)
    then have "1 - r \<le> \<bar>of_int j - q\<bar>" unfolding r_def by simp
    with \<open>\<lfloor>q\<rfloor> + 1 \<le> j\<close> show ?thesis by blast
  qed
  have lo: "r \<le> 1 / 2 \<Longrightarrow> r \<le> \<bar>of_int j - q\<bar>"
    using d r by linarith
  have hi: "1 / 2 \<le> r \<Longrightarrow> 1 - r \<le> \<bar>of_int j - q\<bar>"
    using d r by linarith
  show ?thesis
  proof (rule round_half_even_cases [of q])
    assume "of_int (round_half_even q) - q = - (q - of_int \<lfloor>q\<rfloor>)" "q - of_int \<lfloor>q\<rfloor> \<le> 1 / 2"
    then show ?thesis using lo r unfolding r_def by linarith
  next
    assume "of_int (round_half_even q) - q = 1 - (q - of_int \<lfloor>q\<rfloor>)" "1 / 2 \<le> q - of_int \<lfloor>q\<rfloor>"
    then show ?thesis using hi r unfolding r_def by linarith
  qed
qed

lemma pow2_pos: "0 < (2::rat) powi e"
  by (simp add: zero_less_power_int)

lemma pow2_add: "(2::rat) powi (a + b) = 2 powi a * 2 powi b"
  by (simp add: power_int_add)

lemma pow2_mono: "a \<le> b \<Longrightarrow> (2::rat) powi a \<le> 2 powi b"
  by (rule power_int_increasing) simp_all

lemma pow2_nat: "0 \<le> k \<Longrightarrow> (2::rat) powi k = of_int (2 ^ nat k)"
  by (simp add: power_int_nonneg_exp)

lemma round_unbounded_obtain:
  assumes "y \<noteq> 0"
  obtains e n where "round_unbounded y = of_int n * 2 powi (e - 52)"
    and "- 1022 \<le> e" and "\<bar>y\<bar> < 2 powi (e + 1)" and "- 1022 < e \<Longrightarrow> 2 powi e \<le> \<bar>y\<bar>"
    and "n = round_half_even (y / 2 powi (e - 52))"
proof -
  define e where "e = max (ilog2 \<bar>y\<bar>) (- 1022)"
  define n where "n = round_half_even (y / 2 powi (e - 52))"
  have pos: "0 < \<bar>y\<bar>" using assms by simp
  from ilog2_bounds [OF pos]
  have lo: "2 powi ilog2 \<bar>y\<bar> \<le> \<bar>y\<bar>" and hi: "\<bar>y\<bar> < 2 powi (ilog2 \<bar>y\<bar> + 1)" by auto
  have 1: "round_unbounded y = of_int n * 2 powi (e - 52)"
    using assms by (simp add: round_unbounded_def Let_def e_def n_def)
  have 2: "- 1022 \<le> e" by (simp add: e_def)
  have "(2::rat) powi (ilog2 \<bar>y\<bar> + 1) \<le> 2 powi (e + 1)"
    by (rule pow2_mono) (simp add: e_def)
  with hi have 3: "\<bar>y\<bar> < 2 powi (e + 1)" by linarith
  have 4: "2 powi e \<le> \<bar>y\<bar>" if "- 1022 < e"
  proof -
    from that have "e = ilog2 \<bar>y\<bar>" by (simp add: e_def max_def split: if_splits)
    with lo show ?thesis by simp
  qed
  from 1 2 3 4 n_def show ?thesis by (rule that)
qed

lemma multiple_nearest:
  assumes "0 < u"
  shows "\<bar>of_int (round_half_even (y / u)) * u - y\<bar> \<le> \<bar>of_int j * u - y\<bar>"
proof -
  have a: "of_int k * u - y = (of_int k - y / u) * u" for k :: int
    using assms by (simp add: field_simps)
  have "\<bar>of_int (round_half_even (y / u)) - y / u\<bar> * u \<le> \<bar>of_int j - y / u\<bar> * u"
    using round_half_even_nearest [of "y / u" j] assms by (simp add: mult_right_mono)
  then show ?thesis
    using assms by (simp only: a abs_mult abs_of_pos)
qed

lemma representable_multiple:
  assumes "d \<le> e'"
  shows "\<exists>j. of_int m * (2::rat) powi e' = of_int j * 2 powi d"
proof -
  have "(2::rat) powi e' = 2 powi d * 2 powi (e' - d)"
    using pow2_add [of d "e' - d"] by simp
  also have "(2::rat) powi (e' - d) = of_int (2 ^ nat (e' - d))"
    using assms by (intro pow2_nat) simp
  finally have "of_int m * (2::rat) powi e' = of_int (m * 2 ^ nat (e' - d)) * 2 powi d"
    by simp
  then show ?thesis ..
qed

lemma small_representable:
  assumes "\<bar>m\<bar> < 2 ^ 53" "e' + 53 \<le> e"
  shows "\<bar>of_int m * (2::rat) powi e'\<bar> < 2 powi e"
proof -
  have "(of_int \<bar>m\<bar> :: rat) < of_int (2 ^ 53)" using assms(1) by (simp only: of_int_less_iff)
  then have "\<bar>of_int m :: rat\<bar> < 2 powi 53" by simp
  then have "\<bar>of_int m * (2::rat) powi e'\<bar> < 2 powi 53 * 2 powi e'"
    using pow2_pos [of e'] by (simp add: abs_mult abs_of_pos del: power_int_numeral)
  also have "\<dots> = 2 powi (53 + e')" by (simp only: pow2_add)
  also have "\<dots> \<le> 2 powi e" by (rule pow2_mono) (use assms(2) in simp)
  finally show ?thesis .
qed

lemma round_unbounded_nearest:
  assumes "\<bar>m\<bar> < 2 ^ 53" "- 1074 \<le> e'"
  shows "\<bar>round_unbounded y - y\<bar> \<le> \<bar>of_int m * 2 powi e' - y\<bar>"
proof (cases "y = 0")
  case True
  then show ?thesis by (simp add: round_unbounded_def)
next
  case False
  from round_unbounded_obtain [OF False] obtain e n where
    z: "round_unbounded y = of_int n * 2 powi (e - 52)"
    and e: "- 1022 \<le> e" and hi: "\<bar>y\<bar> < 2 powi (e + 1)"
    and lo: "- 1022 < e \<Longrightarrow> 2 powi e \<le> \<bar>y\<bar>"
    and n: "n = round_half_even (y / 2 powi (e - 52))" by blast
  let ?u = "(2::rat) powi (e - 52)"
  have u: "0 < ?u" by (rule pow2_pos)
  have near: "\<bar>round_unbounded y - y\<bar> \<le> \<bar>of_int j * ?u - y\<bar>" for j
    unfolding z n by (rule multiple_nearest [OF u])
  show ?thesis
  proof (cases "e - 52 \<le> e'")
    case True
    from representable_multiple [OF True, of m] obtain j
      where "of_int m * (2::rat) powi e' = of_int j * ?u" ..
    then show ?thesis using near [of j] by simp
  next
    case False
    then have ee: "e' + 53 \<le> e" by simp
    then have "- 1022 < e" using assms(2) by simp
    then have lo': "2 powi e \<le> \<bar>y\<bar>" by (rule lo)
    have small: "\<bar>of_int m * (2::rat) powi e'\<bar> < 2 powi e"
      by (rule small_representable [OF assms(1) ee])
    from representable_multiple [of "e - 52" e 1] obtain j
      where j: "(2::rat) powi e = of_int j * ?u" by auto
    have "\<bar>round_unbounded y - y\<bar> \<le> \<bar>y\<bar> - 2 powi e"
    proof (cases "0 < y")
      case True
      then show ?thesis using near [of j] lo' by (simp add: j [symmetric])
    next
      case False
      have "\<bar>round_unbounded y - y\<bar> \<le> \<bar>of_int (- j) * ?u - y\<bar>" by (rule near)
      also have "of_int (- j) * ?u = - (2 powi e)" by (simp add: j)
      finally show ?thesis using False lo' by simp
    qed
    also have "\<dots> < \<bar>y\<bar> - \<bar>of_int m * (2::rat) powi e'\<bar>" using small by simp
    also have "\<dots> \<le> \<bar>of_int m * 2 powi e' - y\<bar>" by linarith
    finally show ?thesis by simp
  qed
qed

lemma round_unbounded_abs_le:
  assumes "\<bar>y\<bar> \<le> 2 powi E" "- 1074 \<le> E"
  shows "\<bar>round_unbounded y\<bar> \<le> 2 powi E"
proof -
  have a: "\<bar>round_unbounded y - y\<bar> \<le> \<bar>2 powi E - y\<bar>"
    using round_unbounded_nearest [of 1 E y] assms(2) by simp
  have b: "\<bar>round_unbounded y - y\<bar> \<le> \<bar>- (2 powi E) - y\<bar>"
    using round_unbounded_nearest [of "- 1" E y] assms(2) by simp
  from a b assms(1) show ?thesis by linarith
qed

lemma round_unbounded_repr:
  assumes "\<bar>round_unbounded y\<bar> < 2 powi 1024"
  shows "is_binary64 (round_unbounded y)"
proof (cases "y = 0")
  case True
  have "(0::rat) = of_int 0 * 2 powi 0 \<and> \<bar>0::int\<bar> < 2 ^ 53 \<and> - 1074 \<le> (0::int) \<and> (0::int) \<le> 971"
    by simp
  then have "is_binary64 0" unfolding is_binary64_def by blast
  then show ?thesis using True by (simp add: round_unbounded_def)
next
  case False
  from round_unbounded_obtain [OF False] obtain e n where
    z: "round_unbounded y = of_int n * 2 powi (e - 52)"
    and e: "- 1022 \<le> e" and hi: "\<bar>y\<bar> < 2 powi (e + 1)"
    and lo: "- 1022 < e \<Longrightarrow> 2 powi e \<le> \<bar>y\<bar>"
    and n: "n = round_half_even (y / 2 powi (e - 52))" by blast
  let ?u = "(2::rat) powi (e - 52)"
  define q where "q = y / ?u"
  have u: "0 < ?u" by (rule pow2_pos)
  have "(2::rat) powi (e + 1) = 2 powi (53 + (e - 52))"
    by (rule arg_cong [where f = "\<lambda>k. 2 powi k"]) simp
  moreover have "(2::rat) powi e = 2 powi (52 + (e - 52))"
    by (rule arg_cong [where f = "\<lambda>k. 2 powi k"]) simp
  ultimately have split: "(2::rat) powi (e + 1) = 2 powi 53 * ?u" "(2::rat) powi e = 2 powi 52 * ?u"
    by (simp_all only: pow2_add)
  have aq: "\<bar>q\<bar> = \<bar>y\<bar> / ?u" using u by (simp add: q_def abs_of_pos)
  have q: "\<bar>q\<bar> < 2 powi 53"
    unfolding aq using hi u by (simp only: split) (simp add: field_simps)
  have half: "\<bar>of_int n - q\<bar> \<le> 1 / 2" unfolding n q_def by (rule round_half_even_half)
  have "\<bar>of_int n :: rat\<bar> < 2 powi 53 + 1" using q half by linarith
  then have "(of_int \<bar>n\<bar> :: rat) < of_int (2 ^ 53 + 1)" by simp
  then have "\<bar>n\<bar> < 2 ^ 53 + 1" by (simp only: of_int_less_iff)
  then have n53: "\<bar>n\<bar> \<le> 2 ^ 53" by simp
  have az: "\<bar>round_unbounded y\<bar> = of_int \<bar>n\<bar> * ?u"
    unfolding z using u by (simp add: abs_mult abs_of_pos)
  show ?thesis
  proof (cases "\<bar>n\<bar> < 2 ^ 53")
    case True
    have "e \<le> 1023"
    proof (rule ccontr)
      assume "\<not> e \<le> 1023"
      then have e1024: "1024 \<le> e" by simp
      then have "2 powi e \<le> \<bar>y\<bar>" by (intro lo) simp
      then have "2 powi 52 \<le> \<bar>q\<bar>"
        unfolding aq using u by (simp only: split) (simp add: field_simps)
      then have "2 powi 52 - 1 < \<bar>of_int n :: rat\<bar>" using half by linarith
      then have "(of_int (2 ^ 52 - 1) :: rat) < of_int \<bar>n\<bar>" by simp
      then have "2 ^ 52 - 1 < \<bar>n\<bar>" by (simp only: of_int_less_iff)
      then have "2 ^ 52 \<le> \<bar>n\<bar>" by simp
      then have "(of_int (2 ^ 52) :: rat) \<le> of_int \<bar>n\<bar>" by (simp only: of_int_le_iff)
      then have "2 powi 52 * ?u \<le> of_int \<bar>n\<bar> * ?u" using u by (simp add: mult_right_mono)
      then have "2 powi e \<le> \<bar>round_unbounded y\<bar>" by (simp only: az split)
      moreover have "(2::rat) powi 1024 \<le> 2 powi e" using e1024 by (rule pow2_mono)
      ultimately show False using assms by linarith
    qed
    then have "round_unbounded y = of_int n * 2 powi (e - 52) \<and> \<bar>n\<bar> < 2 ^ 53
        \<and> - 1074 \<le> e - 52 \<and> e - 52 \<le> 971"
      using z True e by simp
    then show ?thesis unfolding is_binary64_def by blast
  next
    case False
    with n53 have n_eq: "\<bar>n\<bar> = 2 ^ 53" by simp
    have "\<bar>round_unbounded y\<bar> = 2 powi (e + 1)"
      unfolding az n_eq by (simp add: split)
    with assms have "(2::rat) powi (e + 1) < 2 powi 1024" by simp
    then have "e + 1 < 1024"
      using pow2_mono [of 1024 "e + 1"] by (cases "e + 1 < 1024") auto
    then have e1022: "e \<le> 1022" by simp
    have "n = 2 ^ 53 \<or> n = - (2 ^ 53)" using n_eq by linarith
    then have ev: "n = 2 * (n div 2)" and half53: "\<bar>n div 2\<bar> < 2 ^ 53" by auto
    have "(2::rat) powi (e - 52) * 2 = 2 powi (e - 51)"
      using pow2_add [of "e - 52" 1] by simp
    then have "of_int n * ?u = of_int (n div 2) * 2 powi (e - 51)"
      by (subst ev) (simp add: mult.assoc mult.commute)
    with half53 have "round_unbounded y = of_int (n div 2) * 2 powi (e - 51)
        \<and> \<bar>n div 2\<bar> < 2 ^ 53 \<and> - 1074 \<le> e - 51 \<and> e - 51 \<le> 971"
      using z e e1022 by simp
    then show ?thesis unfolding is_binary64_def by blast
  qed
qed

lemma round_f64_Finite:
  "round_f64 y = Finite z \<Longrightarrow> z = round_unbounded y \<and> \<bar>z\<bar> < 2 powi 1024"
  by (auto simp add: round_f64_def Let_def split: if_splits)

lemma round_f64_nearest:
  assumes "round_f64 y = Finite z"
  shows "nearest_binary64 y z"
proof -
  from round_f64_Finite [OF assms]
  have z: "z = round_unbounded y" and b: "\<bar>round_unbounded y\<bar> < 2 powi 1024" by auto
  have "\<bar>round_unbounded y - y\<bar> \<le> \<bar>z' - y\<bar>" if "is_binary64 z'" for z'
  proof -
    from that obtain m e' where "z' = of_int m * 2 powi e'" "\<bar>m\<bar> < 2 ^ 53" "- 1074 \<le> e'"
      unfolding is_binary64_def by blast
    then show ?thesis using round_unbounded_nearest [of m e' y] by simp
  qed
  then show ?thesis
    unfolding nearest_binary64_def z using round_unbounded_repr [OF b] by blast
qed

lemma round_f64_bounded:
  assumes "\<bar>y\<bar> \<le> 2 powi E" "- 1074 \<le> E" "E \<le> 1023"
  shows "\<exists>z. round_f64 y = Finite z \<and> \<bar>z\<bar> \<le> 2 powi E \<and> nearest_binary64 y z"
proof -
  have a: "\<bar>round_unbounded y\<bar> \<le> 2 powi E" by (rule round_unbounded_abs_le [OF assms(1,2)])
  have "(2::rat) powi E < 2 powi 1024"
    by (rule power_int_strict_increasing) (use assms(3) in simp_all)
  with a have b: "\<bar>round_unbounded y\<bar> < 2 powi 1024" by linarith
  then have f: "round_f64 y = Finite (round_unbounded y)"
    by (simp add: round_f64_def Let_def del: power_int_numeral)
  from round_f64_nearest [OF f] f a show ?thesis by blast
qed

lemma pow2_bounds:
  "\<bar>c\<bar> \<le> 2 ^ 1000 \<Longrightarrow> \<bar>c * (8106479329266893 / 4503599627370496)\<bar> \<le> (2::rat) powi 1001"
  "\<bar>c\<bar> \<le> 2 ^ 1000 \<Longrightarrow> \<bar>c * (8106479329266893 / 4503599627370496) + 32\<bar> \<le> (2::rat) powi 1002"
  "\<bar>p\<bar> \<le> (2::rat) powi 1001 \<Longrightarrow> \<bar>p + 32\<bar> \<le> (2::rat) powi 1002"
  "\<bar>c\<bar> \<le> 2 ^ 1000 \<Longrightarrow> \<bar>c + 273\<bar> \<le> (2::rat) powi 1001"
  by (simp_all add: abs_mult)

lemma conversions_finite:
  assumes "\<bar>c\<bar> \<le> 2 ^ 1000"
  obtains k p F K where
    "nearest_binary64 (18 / 10) k"
    "if fused then nearest_binary64 (c * k + 32) F
     else nearest_binary64 (c * k) p \<and> nearest_binary64 (p + 32) F"
    "nearest_binary64 (c + 273) K"
    "fahrenheit fused (Finite c) = Finite F"
    "kelvin (Finite c) = Finite K"
proof -
  let ?k = "8106479329266893 / 4503599627370496 :: rat"
  have k: "nearest_binary64 (18 / 10) ?k"
    by (rule round_f64_nearest [OF round_f64_18_10])
  from round_f64_bounded [OF pow2_bounds(4) [OF assms]]
  obtain K where K: "round_f64 (c + 273) = Finite K" "nearest_binary64 (c + 273) K" by auto
  have kel: "kelvin (Finite c) = Finite K"
    by (simp only: kelvin_def round_f64_273 f64_add.simps K)
  show ?thesis
  proof (cases fused)
    case True
    from round_f64_bounded [OF pow2_bounds(2) [OF assms]]
    obtain F where F: "round_f64 (c * ?k + 32) = Finite F" "nearest_binary64 (c * ?k + 32) F"
      by auto
    have "fahrenheit fused (Finite c) = Finite F"
      using True by (simp only: fahrenheit_def round_f64_18_10 round_f64_32 f64_fma.simps F if_True)
    then show ?thesis using that [of ?k F 0 K] k F K kel True by simp
  next
    case False
    from round_f64_bounded [OF pow2_bounds(1) [OF assms]]
    obtain p where p: "round_f64 (c * ?k) = Finite p" "\<bar>p\<bar> \<le> 2 powi 1001"
      "nearest_binary64 (c * ?k) p" by auto
    from round_f64_bounded [OF pow2_bounds(3) [OF p(2)]]
    obtain F where F: "round_f64 (p + 32) = Finite F" "nearest_binary64 (p + 32) F" by auto
    have "fahrenheit fused (Finite c) = Finite F"
      using False
      by (simp only: fahrenheit_def round_f64_18_10 round_f64_32 f64_mul.simps f64_add.simps
          p F if_False)
    then show ?thesis using that [of ?k F p K] k p F K kel False by simp
  qed
qed

lemma GetWeatherHandler_status:
  "status (fst (GetWeatherHandler l e cep new_writer st)) \<in> {200, 404, 422, 500}"
proof (cases "isValidCEP cep")
  case False
  then show ?thesis
    by (simp add: GetWeatherHandler_def http_Error_new_writer StatusUnprocessableEntity_def)
next
  case True
  show ?thesis
    by (simp add: GetWeatherHandler_response [where sa = st and sb = st, OF True]
        http_Error_new_writer http_Error_after_header Write_after_header success_writer
        StatusNotFound_def StatusInternalServerError_def split: sum.splits)
qed

lemma round_f64_cases:
  obtains z where "round_f64 y = Finite z" "nearest_binary64 y z"
  | "round_f64 y = PosInf" | "round_f64 y = NegInf"
proof (cases "round_f64 y")
  case (Finite z)
  with round_f64_nearest [OF Finite] show ?thesis using that(1) by blast
next
  case NaN
  then show ?thesis by (simp add: round_f64_def Let_def split: if_splits)
qed (use that in blast)+

lemma conversions_cases:
  obtains (finite) k p F K where
    "nearest_binary64 (18 / 10) k"
    "if fused then nearest_binary64 (c * k + 32) F
     else nearest_binary64 (c * k) p \<and> nearest_binary64 (p + 32) F"
    "nearest_binary64 (c + 273) K"
    "fahrenheit fused (Finite c) = Finite F"
    "kelvin (Finite c) = Finite K"
  | (overflow) a rest where "a = PosInf \<or> a = NegInf"
    "filter (\<lambda>a. \<not> is_finite a)
       [Finite c, fahrenheit fused (Finite c), kelvin (Finite c)] = a # rest"
proof -
  let ?k = "8106479329266893 / 4503599627370496 :: rat"
  have k: "nearest_binary64 (18 / 10) ?k"
    by (rule round_f64_nearest [OF round_f64_18_10])
  have kel: "kelvin (Finite c) = round_f64 (c + 273)"
    by (simp only: kelvin_def round_f64_273 f64_add.simps)
  have fah: "(\<exists>p F. (if fused then nearest_binary64 (c * ?k + 32) F
                 else nearest_binary64 (c * ?k) p \<and> nearest_binary64 (p + 32) F)
               \<and> fahrenheit fused (Finite c) = Finite F)
      \<or> fahrenheit fused (Finite c) = PosInf \<or> fahrenheit fused (Finite c) = NegInf"
  proof (cases fused)
    case True
    then have f: "fahrenheit fused (Finite c) = round_f64 (c * ?k + 32)"
      by (simp only: fahrenheit_def round_f64_18_10 round_f64_32 f64_fma.simps if_True)
    show ?thesis
      by (rule round_f64_cases [of "c * ?k + 32"]) (use True f in auto)
  next
    case False
    then have f: "fahrenheit fused (Finite c) = f64_add (round_f64 (c * ?k)) (Finite 32)"
      by (simp only: fahrenheit_def round_f64_18_10 round_f64_32 f64_mul.simps if_False)
    show ?thesis
    proof (rule round_f64_cases [of "c * ?k"])
      fix p assume p: "round_f64 (c * ?k) = Finite p" "nearest_binary64 (c * ?k) p"
      then have f': "fahrenheit fused (Finite c) = round_f64 (p + 32)" by (simp add: f)
      show ?thesis
        by (rule round_f64_cases [of "p + 32"]) (use False f' p in auto)
    qed (simp_all add: f)
  qed
  show ?thesis
  proof (rule round_f64_cases [of "c + 273"])
    fix K assume K: "round_f64 (c + 273) = Finite K" "nearest_binary64 (c + 273) K"
    from fah show ?thesis
    proof (elim disjE exE conjE)
      fix p F
      assume "if fused then nearest_binary64 (c * ?k + 32) F
                 else nearest_binary64 (c * ?k) p \<and> nearest_binary64 (p + 32) F"
        "fahrenheit fused (Finite c) = Finite F"
      then show ?thesis using finite [of ?k F p K] k K kel by simp
    next
      assume "fahrenheit fused (Finite c) = PosInf"
      then show ?thesis using overflow [of PosInf] K kel by (simp add: is_finite_def)
    next
      assume "fahrenheit fused (Finite c) = NegInf"
      then show ?thesis using overflow [of NegInf] K kel by (simp add: is_finite_def)
    qed
  next
    assume K: "round_f64 (c + 273) = PosInf"
    from fah show ?thesis
      using overflow [of PosInf] overflow [of NegInf] K kel by (auto simp add: is_finite_def)
  next
    assume K: "round_f64 (c + 273) = NegInf"
    from fah show ?thesis
      using overflow [of PosInf] overflow [of NegInf] K kel by (auto simp add: is_finite_def)
  qed
qed

lemma relay_invalid_status_panics:
  assumes "Decode b = Inr req"
    and "gateway_isValidCEP (CEP req)"
    and "NewRequest_error l (''http://service-b:8081/weather/'' @ CEP req) = None"
    and "client_Do e (''http://service-b:8081/weather/'' @ CEP req) = Inr resp"
    and "StatusCode resp < 100"
  shows "panicked (fst (GetWeatherViaServiceB l e b new_writer st))
    \<and> \<not> wroteHeader (fst (GetWeatherViaServiceB l e b new_writer st))
    \<and> body (fst (GetWeatherViaServiceB l e b new_writer st)) = []"
  using assms
  by (simp add: GetWeatherViaServiceB_def otelhttp_Do_def Do_def tr_Start_def Let_def
      WriteHeader_def copy_headers_rest new_writer_def)

section \<open>The claims\<close>

text \<open>
  C1 (amended).  For a valid postal code: when the provider's body decodes and its
  error flag is exactly the string \<^verbatim>\<open>true\<close>, \<^verbatim>\<open>fetchLocation\<close> returns the not-found error
  and the handler answers 404 with the one line \<^verbatim>\<open>can not find zipcode\<close>; when the flag is
  anything else, empty or not, \<^verbatim>\<open>fetchLocation\<close> returns the decoded value and the answer
  is not 404; and a transport or decode failure is returned as it is and answered with 500
  and its error text, never with 404.
\<close>

theorem not_found_classification:
  assumes "isValidCEP cep"
  shows "(viacep_exchange l e cep = Inr v \<and> Erro v = ''true'' \<longrightarrow>
            fst (fetchLocation l e cep st) = Inl ''can not find zipcode''
            \<and> status (fst (GetWeatherHandler l e cep new_writer st)) = 404
            \<and> body (fst (GetWeatherHandler l e cep new_writer st))
                = text_line ''can not find zipcode'')
       \<and> (viacep_exchange l e cep = Inr v \<and> Erro v \<noteq> ''true'' \<longrightarrow>
            fst (fetchLocation l e cep st) = Inr v
            \<and> status (fst (GetWeatherHandler l e cep new_writer st)) \<noteq> 404)
       \<and> (viacep_exchange l e cep = Inl err \<longrightarrow>
            fst (fetchLocation l e cep st) = Inl err
            \<and> status (fst (GetWeatherHandler l e cep new_writer st)) = 500
            \<and> body (fst (GetWeatherHandler l e cep new_writer st)) = text_line err)"
proof -
  note R = GetWeatherHandler_response [where l = l and e = e and w = new_writer and st = st
      and sa = st and sb = st, OF assms]
  have a: "fst (fetchLocation l e cep st) = Inl ''can not find zipcode''
            \<and> status (fst (GetWeatherHandler l e cep new_writer st)) = 404
            \<and> body (fst (GetWeatherHandler l e cep new_writer st))
                = text_line ''can not find zipcode''"
    if "viacep_exchange l e cep = Inr v" "Erro v = ''true''"
    using that
    by (simp add: R fetchLocation_exchange http_Error_new_writer StatusNotFound_def)
  have b: "fst (fetchLocation l e cep st) = Inr v
            \<and> status (fst (GetWeatherHandler l e cep new_writer st)) \<noteq> 404"
    if "viacep_exchange l e cep = Inr v" "Erro v \<noteq> ''true''"
    using that
    by (simp add: R fetchLocation_exchange http_Error_new_writer http_Error_after_header
        Write_after_header success_writer StatusInternalServerError_def split: sum.splits)
  have c: "fst (fetchLocation l e cep st) = Inl err
            \<and> status (fst (GetWeatherHandler l e cep new_writer st)) = 500
            \<and> body (fst (GetWeatherHandler l e cep new_writer st)) = text_line err"
    if "viacep_exchange l e cep = Inl err"
    using that viacep_exchange_not_found [of l e cep]
    by (auto simp add: R fetchLocation_exchange http_Error_new_writer
        StatusInternalServerError_def)
  from a b c show ?thesis by blast
qed

theorem not_found_classification_witness:
  "isValidCEP ''99999999''
   \<and> viacep_exchange (scenario_lib False) (scenario_env ''k'' ''20'' (ok_response [])) ''99999999''
       = Inr \<lparr>Localidade = [], Erro = ''true''\<rparr>
   \<and> fst (fetchLocation (scenario_lib False) (scenario_env ''k'' ''20'' (ok_response []))
        ''99999999'' fresh) = Inl ''can not find zipcode''
   \<and> status (fst (GetWeatherHandler (scenario_lib False)
        (scenario_env ''k'' ''20'' (ok_response [])) ''99999999'' new_writer fresh)) = 404
   \<and> body (fst (GetWeatherHandler (scenario_lib False)
        (scenario_env ''k'' ''20'' (ok_response [])) ''99999999'' new_writer fresh))
       = text_line ''can not find zipcode''
   \<and> isValidCEP ''01001001''
   \<and> viacep_exchange (scenario_lib False) (scenario_env ''k'' ''20'' (ok_response [])) ''01001001''
       = Inr \<lparr>Localidade = ''Sao Paulo'', Erro = ''1''\<rparr>
   \<and> fst (fetchLocation (scenario_lib False) (scenario_env ''k'' ''20'' (ok_response []))
        ''01001001'' fresh) = Inr \<lparr>Localidade = ''Sao Paulo'', Erro = ''1''\<rparr>
   \<and> status (fst (GetWeatherHandler (scenario_lib False)
        (scenario_env ''k'' ''20'' (ok_response [])) ''01001001'' new_writer fresh)) \<noteq> 404
   \<and> isValidCEP ''12345678''
   \<and> viacep_exchange (scenario_lib False) (scenario_env ''k'' ''20'' (ok_response [])) ''12345678''
       = Inl (''Get '' @ Quote ''https://viacep.com.br/ws/12345678/json/''
                @ '': dial tcp: connection refused'')
   \<and> fst (fetchLocation (scenario_lib False) (scenario_env ''k'' ''20'' (ok_response []))
        ''12345678'' fresh)
       = Inl (''Get '' @ Quote ''https://viacep.com.br/ws/12345678/json/''
                @ '': dial tcp: connection refused'')
   \<and> status (fst (GetWeatherHandler (scenario_lib False)
        (scenario_env ''k'' ''20'' (ok_response [])) ''12345678'' new_writer fresh)) = 500
   \<and> body (fst (GetWeatherHandler (scenario_lib False)
        (scenario_env ''k'' ''20'' (ok_response [])) ''12345678'' new_writer fresh))
       = text_line (''Get '' @ Quote ''https://viacep.com.br/ws/12345678/json/''
                      @ '': dial tcp: connection refused'')"
  using not_found_classification [OF valid_99999999, where l = "scenario_lib False"
      and e = "scenario_env ''k'' ''20'' (ok_response [])" and st = fresh
      and v = "\<lparr>Localidade = [], Erro = ''true''\<rparr>"]
    not_found_classification [OF valid_01001001, where l = "scenario_lib False"
      and e = "scenario_env ''k'' ''20'' (ok_response [])" and st = fresh
      and v = "\<lparr>Localidade = ''Sao Paulo'', Erro = ''1''\<rparr>"]
    not_found_classification [OF valid_12345678, where l = "scenario_lib False"
      and e = "scenario_env ''k'' ''20'' (ok_response [])" and st = fresh
      and err = "''Get '' @ Quote ''https://viacep.com.br/ws/12345678/json/''
                   @ '': dial tcp: connection refused''"]
    valid_99999999 valid_01001001 valid_12345678
  by (simp add: scenario_exchange)

theorem not_found_classification_counterexample:
  "isValidCEP ''01001001''
   \<and> viacep_exchange (scenario_lib False) (scenario_env ''k'' ''20'' (ok_response [])) ''01001001''
       = Inr \<lparr>Localidade = ''Sao Paulo'', Erro = ''1''\<rparr>
   \<and> Erro \<lparr>Localidade = ''Sao Paulo'', Erro = ''1''\<rparr> \<noteq> []
   \<and> fst (fetchLocation (scenario_lib False) (scenario_env ''k'' ''20'' (ok_response []))
        ''01001001'' fresh) \<noteq> Inl ''can not find zipcode''
   \<and> status (fst (GetWeatherHandler (scenario_lib False)
        (scenario_env ''k'' ''20'' (ok_response [])) ''01001001'' new_writer fresh)) = 200
   \<and> body (fst (GetWeatherHandler (scenario_lib False)
        (scenario_env ''k'' ''20'' (ok_response [])) ''01001001'' new_writer fresh))
       \<noteq> text_line ''can not find zipcode''"
proof -
  have enc: "json_Encode (scenario_lib False)
      \<lparr>City = ''Sao Paulo'', TempC = Finite 20, TempF = Finite 68, TempK = Finite 293\<rparr>
      = Inr (''city=Sao Paulo'' @ [LF])"
    by (simp add: json_Encode_def is_finite_def scenario_lib_def)
  have f: "fused_multiply_add (scenario_lib False) = False" by (simp add: scenario_lib_def)
  have r: "fst (GetWeatherHandler (scenario_lib False)
        (scenario_env ''k'' ''20'' (ok_response [])) ''01001001'' new_writer fresh) =
      Write (''city=Sao Paulo'' @ [LF])
        (WriteHeader StatusOK (Header_Set ''Content-Type'' ''application/json'' new_writer))"
    by (simp add: GetWeatherHandler_response [where sa = fresh and sb = fresh, OF valid_01001001]
        scenario_location_flag scenario_weather f fahrenheit_20 kelvin_20 enc)
  show ?thesis
    by (simp add: r valid_01001001 scenario_exchange scenario_location_flag
        Write_after_header success_writer text_line_def)
qed

text \<open>
  C2.  \<^verbatim>\<open>isValidCEP\<close> accepts a string exactly when it consists of eight ASCII digits
  and nothing else, and the Gateway's copy and the Orchestrator's copy are the same
  predicate.
\<close>

theorem isValidCEP_eight_digits:
  "isValidCEP s = (length s = 8 \<and> set s \<subseteq> set ''0123456789'')
   \<and> gateway_isValidCEP s = isValidCEP s"
  by (simp only: isValidCEP_def gateway_isValidCEP_def MatchString_cep_pattern
      list_all_ascii_digit simp_thms)

text \<open>
  C3.  When the address lookup yields a locality and the weather lookup a temperature
  \<open>c\<close>, the Orchestrator answers 200 with the JSON text of the response whose city is the
  locality, whose \<^verbatim>\<open>temp_C\<close> is \<open>c\<close>, whose \<^verbatim>\<open>temp_K\<close> is a binary64 number nearest to
  \<open>c + 273\<close>, and whose \<^verbatim>\<open>temp_F\<close> is \<open>c \<times> 1.8 + 32\<close> in binary64 arithmetic: with \<open>k\<close> the
  binary64 number nearest to \<open>1.8\<close>, it is a binary64 number nearest to \<open>p + 32\<close>, where
  \<open>p\<close> is one nearest to \<open>c \<times> k\<close>, or, where the compiler fuses the two operations, a
  binary64 number nearest to \<open>c \<times> k + 32\<close>.  For a temperature of 20 the two values are
  exactly 68 and 293.  The only other outcome is that a conversion overflows, which
  takes a temperature of magnitude beyond \<open>2 ^ 1000\<close>: then the body is the encoder's
  error line.
\<close>

theorem final_response_conversion:
  assumes "isValidCEP cep"
    and "fst (fetchLocation l e cep sa) = Inr location"
    and "fst (fetchWeather l e (Localidade location) sb) = Inr weather"
    and "Current_TempC weather = Finite c"
  shows "(\<exists>k p F K.
        nearest_binary64 (18 / 10) k
      \<and> (if fused_multiply_add l then nearest_binary64 (c * k + 32) F
         else nearest_binary64 (c * k) p \<and> nearest_binary64 (p + 32) F)
      \<and> nearest_binary64 (c + 273) K
      \<and> status (fst (GetWeatherHandler l e cep new_writer st)) = 200
      \<and> body (fst (GetWeatherHandler l e cep new_writer st)) =
          Marshal_FinalResponse l
            \<lparr>City = Localidade location, TempC = Finite c,
             TempF = Finite F, TempK = Finite K\<rparr> @ [LF]
      \<and> (c = 20 \<longrightarrow> F = 68 \<and> K = 293))
    \<or> (2 ^ 1000 < \<bar>c\<bar>
      \<and> (body (fst (GetWeatherHandler l e cep new_writer st))
            = text_line ''json: unsupported value: +Inf''
         \<or> body (fst (GetWeatherHandler l e cep new_writer st))
            = text_line ''json: unsupported value: -Inf''))"
proof (rule conversions_cases [of "fused_multiply_add l" c])
  fix k p F K
  assume k: "nearest_binary64 (18 / 10) k"
    and F: "if fused_multiply_add l then nearest_binary64 (c * k + 32) F
       else nearest_binary64 (c * k) p \<and> nearest_binary64 (p + 32) F"
    and K: "nearest_binary64 (c + 273) K"
    and fF: "fahrenheit (fused_multiply_add l) (Finite c) = Finite F"
    and fK: "kelvin (Finite c) = Finite K"
  note R = GetWeatherHandler_response [where l = l and e = e and w = new_writer and st = st
      and sa = sa and sb = sb, OF assms(1)]
  have enc: "json_Encode l \<lparr>City = Localidade location, TempC = Finite c,
           TempF = Finite F, TempK = Finite K\<rparr> = Inr (Marshal_FinalResponse l
          \<lparr>City = Localidade location, TempC = Finite c,
           TempF = Finite F, TempK = Finite K\<rparr> @ [LF])"
    by (rule json_Encode_finite) (simp_all add: is_finite_def)
  have r: "fst (GetWeatherHandler l e cep new_writer st) =
      Write (Marshal_FinalResponse l
          \<lparr>City = Localidade location, TempC = Finite c,
           TempF = Finite F, TempK = Finite K\<rparr> @ [LF])
        (WriteHeader StatusOK (Header_Set ''Content-Type'' ''application/json'' new_writer))"
    by (simp only: R assms(2,3,4) fF fK enc sum.case)
  have resp1: "status (fst (GetWeatherHandler l e cep new_writer st)) = 200"
    and resp2: "body (fst (GetWeatherHandler l e cep new_writer st)) =
        Marshal_FinalResponse l
          \<lparr>City = Localidade location, TempC = Finite c,
           TempF = Finite F, TempK = Finite K\<rparr> @ [LF]"
    unfolding r by (simp_all add: Write_after_header success_writer)
  have twenty: "c = 20 \<longrightarrow> F = 68 \<and> K = 293"
  proof
    assume c: "c = 20"
    have "Finite F = Finite 68" using fF by (simp only: c fahrenheit_20)
    moreover have "Finite K = Finite 293" using fK by (simp only: c kelvin_20)
    ultimately show "F = 68 \<and> K = 293" by simp
  qed
  show ?thesis
    by (rule disjI1, rule exI [where x = k], rule exI [where x = p], rule exI [where x = F],
        rule exI [where x = K]) (intro conjI k F K resp1 resp2 twenty)
next
  fix a rest
  assume a: "a = PosInf \<or> a = NegInf"
    and f: "filter (\<lambda>a. \<not> is_finite a)
       [Finite c, fahrenheit (fused_multiply_add l) (Finite c), kelvin (Finite c)] = a # rest"
  note R = GetWeatherHandler_response [where l = l and e = e and w = new_writer and st = st
      and sa = sa and sb = sb, OF assms(1)]
  have big: "2 ^ 1000 < \<bar>c\<bar>"
  proof (rule ccontr)
    assume "\<not> 2 ^ 1000 < \<bar>c\<bar>"
    then have b: "\<bar>c\<bar> \<le> 2 ^ 1000" by simp
    show False
      by (rule conversions_finite [OF b, of "fused_multiply_add l"])
        (use f in \<open>simp add: is_finite_def\<close>)
  qed
  have enc: "json_Encode l \<lparr>City = Localidade location, TempC = Finite c,
           TempF = fahrenheit (fused_multiply_add l) (Finite c),
           TempK = kelvin (Finite c)\<rparr> = Inl (''json: unsupported value: '' @ FormatFloat_special a)"
    using f by (simp only: json_Encode_def FinalResponse.simps list.case)
  have r: "fst (GetWeatherHandler l e cep new_writer st) =
      http_Error (''json: unsupported value: '' @ FormatFloat_special a) StatusInternalServerError
        (WriteHeader StatusOK (Header_Set ''Content-Type'' ''application/json'' new_writer))"
    by (simp only: R assms(2,3,4) enc sum.case)
  have "body (fst (GetWeatherHandler l e cep new_writer st))
      = text_line (''json: unsupported value: '' @ FormatFloat_special a)"
    unfolding r by (simp add: http_Error_after_header success_writer)
  with a big show ?thesis by (auto simp add: FormatFloat_special_def)
qed

theorem final_response_conversion_witness:
  "isValidCEP ''01001000''
   \<and> fst (fetchLocation (scenario_lib True) (scenario_env ''k'' ''20'' (ok_response [])) ''01001000''
        fresh) = Inr \<lparr>Localidade = ''Sao Paulo'', Erro = []\<rparr>
   \<and> fst (fetchWeather (scenario_lib True) (scenario_env ''k'' ''20'' (ok_response []))
        ''Sao Paulo'' fresh) = Inr \<lparr>Current_TempC = Finite 20\<rparr>
   \<and> status (fst (GetWeatherHandler (scenario_lib True)
        (scenario_env ''k'' ''20'' (ok_response [])) ''01001000'' new_writer fresh)) = 200
   \<and> body (fst (GetWeatherHandler (scenario_lib True)
        (scenario_env ''k'' ''20'' (ok_response [])) ''01001000'' new_writer fresh))
       = ''city=Sao Paulo'' @ [LF]"
proof -
  have loc: "fst (fetchLocation (scenario_lib True) (scenario_env ''k'' ''20'' (ok_response []))
      ''01001000'' fresh) = Inr \<lparr>Localidade = ''Sao Paulo'', Erro = []\<rparr>"
    by (rule scenario_location)
  have wth: "fst (fetchWeather (scenario_lib True) (scenario_env ''k'' ''20'' (ok_response []))
      (Localidade \<lparr>Localidade = ''Sao Paulo'', Erro = []\<rparr>) fresh) = Inr \<lparr>Current_TempC = Finite 20\<rparr>"
    by (simp add: scenario_weather)
  have t: "Current_TempC \<lparr>Current_TempC = Finite 20\<rparr> = Finite 20" by simp
  have b: "\<not> 2 ^ 1000 < \<bar>20 :: rat\<bar>" by simp
  have fm: "Marshal_FinalResponse (scenario_lib True) r = ''city='' @ City r" for r
    by (simp add: scenario_lib_def)
  from final_response_conversion [OF valid_01001000(1) loc wth t, where st = fresh] b
  obtain F K where
    "status (fst (GetWeatherHandler (scenario_lib True)
        (scenario_env ''k'' ''20'' (ok_response [])) ''01001000'' new_writer fresh)) = 200"
    "body (fst (GetWeatherHandler (scenario_lib True)
        (scenario_env ''k'' ''20'' (ok_response [])) ''01001000'' new_writer fresh))
       = Marshal_FinalResponse (scenario_lib True)
          \<lparr>City = Localidade \<lparr>Localidade = ''Sao Paulo'', Erro = []\<rparr>, TempC = Finite 20,
           TempF = Finite F, TempK = Finite K\<rparr> @ [LF]"
    by blast
  then show ?thesis
    using loc wth valid_01001000(1) by (simp only: fm) simp
qed

text \<open>
  C4.  A postal code that fails the validation is answered with status 422 and the one
  line \<^verbatim>\<open>invalid zipcode\<close> by both handlers, and neither has then made a network call
  or touched the trace: the state is the one the handler started from.
\<close>

theorem invalid_zipcode_rejected:
  "(\<not> isValidCEP cep \<longrightarrow>
      status (fst (GetWeatherHandler l e cep new_writer st)) = 422
      \<and> body (fst (GetWeatherHandler l e cep new_writer st)) = text_line ''invalid zipcode''
      \<and> snd (GetWeatherHandler l e cep new_writer st) = st)
   \<and> (Decode b = Inr req \<and> \<not> gateway_isValidCEP (CEP req) \<longrightarrow>
      status (fst (GetWeatherViaServiceB l e b new_writer st)) = 422
      \<and> body (fst (GetWeatherViaServiceB l e b new_writer st)) = text_line ''invalid zipcode''
      \<and> snd (GetWeatherViaServiceB l e b new_writer st) = st)"
  by (simp add: GetWeatherHandler_def GetWeatherViaServiceB_def http_Error_new_writer
      StatusUnprocessableEntity_def)

theorem invalid_zipcode_rejected_witness:
  "\<not> isValidCEP ''12345''
   \<and> status (fst (GetWeatherHandler (scenario_lib False) (scenario_env ''k'' ''20'' (ok_response []))
        ''12345'' new_writer fresh)) = 422
   \<and> body (fst (GetWeatherHandler (scenario_lib False) (scenario_env ''k'' ''20'' (ok_response []))
        ''12345'' new_writer fresh)) = text_line ''invalid zipcode''
   \<and> snd (GetWeatherHandler (scenario_lib False) (scenario_env ''k'' ''20'' (ok_response []))
        ''12345'' new_writer fresh) = fresh
   \<and> Decode (Inr (JObject [(''cep'', JString ''12345'')])) = Inr \<lparr>CEP = ''12345''\<rparr>
   \<and> \<not> gateway_isValidCEP (CEP \<lparr>CEP = ''12345''\<rparr>)
   \<and> status (fst (GetWeatherViaServiceB (scenario_lib False)
        (scenario_env ''k'' ''20'' (ok_response []))
        (Inr (JObject [(''cep'', JString ''12345'')])) new_writer fresh)) = 422
   \<and> body (fst (GetWeatherViaServiceB (scenario_lib False)
        (scenario_env ''k'' ''20'' (ok_response []))
        (Inr (JObject [(''cep'', JString ''12345'')])) new_writer fresh))
       = text_line ''invalid zipcode''
   \<and> snd (GetWeatherViaServiceB (scenario_lib False) (scenario_env ''k'' ''20'' (ok_response []))
        (Inr (JObject [(''cep'', JString ''12345'')])) new_writer fresh) = fresh"
proof -
  have v: "\<not> isValidCEP ''12345''" "\<not> gateway_isValidCEP (CEP \<lparr>CEP = ''12345''\<rparr>)"
    by (simp_all add: isValidCEP_def gateway_isValidCEP_def MatchString_cep_pattern)
  have d: "Decode (Inr (JObject [(''cep'', JString ''12345'')])) = Inr \<lparr>CEP = ''12345''\<rparr>"
    by (simp add: Decode_def is_cep_key_def ascii_lower_def)
  show ?thesis
    using v d
      invalid_zipcode_rejected [where cep = "''12345''" and l = "scenario_lib False"
        and e = "scenario_env ''k'' ''20'' (ok_response [])" and st = fresh
        and b = "Inr (JObject [(''cep'', JString ''12345'')])" and req = "\<lparr>CEP = ''12345''\<rparr>"]
    by simp
qed



text \<open>
  C6.  Whatever the outcome, \<^verbatim>\<open>fetchLocation\<close> and \<^verbatim>\<open>fetchWeather\<close> each add exactly the
  start of their span and its end to the trace, and among the events a run of the
  Orchestrator handler or of the Gateway handler adds, every span started is ended
  exactly once and nothing else is ended; the events that were there before stay in
  place.  When the Gateway forwards a request, the events it adds are the start and the
  end of the client span of the call, whether the call succeeds or fails.
\<close>

theorem spans_closed_exactly_once:
  "new_events st (snd (fetchLocation l e cep st)) =
     [SpanStart (length (filter is_start (events st))) ''fetchLocation-viacep'',
      SpanEnd (length (filter is_start (events st)))]
   \<and> new_events st (snd (fetchWeather l e city st)) =
     [SpanStart (length (filter is_start (events st))) ''fetchWeather-weatherapi'',
      SpanEnd (length (filter is_start (events st)))]
   \<and> closed_exactly_once (new_events st (snd (fetchLocation l e cep st)))
   \<and> closed_exactly_once (new_events st (snd (fetchWeather l e city st)))
   \<and> closed_exactly_once (new_events st (snd (GetWeatherHandler l e cep w st)))
   \<and> take (length (events st)) (events (snd (GetWeatherHandler l e cep w st))) = events st
   \<and> closed_exactly_once (new_events st (snd (GetWeatherViaServiceB l e b w st)))
   \<and> take (length (events st)) (events (snd (GetWeatherViaServiceB l e b w st))) = events st
   \<and> (Decode b = Inr req \<and> gateway_isValidCEP (CEP req)
        \<and> NewRequest_error l (''http://service-b:8081/weather/'' @ CEP req) = None \<longrightarrow>
        new_events st (snd (GetWeatherViaServiceB l e b w st)) =
          [SpanStart (length (filter is_start (events st))) ''HTTP GET'',
           SpanEnd (length (filter is_start (events st)))])"
  by (simp add: new_events_def fetchLocation_events fetchWeather_events GetWeatherHandler_events
      GetWeatherViaServiceB_events closed_exactly_once_def split: sum.splits option.splits)

theorem spans_closed_exactly_once_witness:
  "Decode (Inr (JObject [(''cep'', JString ''01001000'')])) = Inr \<lparr>CEP = ''01001000''\<rparr>
   \<and> gateway_isValidCEP (CEP \<lparr>CEP = ''01001000''\<rparr>)
   \<and> NewRequest_error (scenario_lib False) ''http://service-b:8081/weather/01001000'' = None
   \<and> new_events fresh (snd (GetWeatherViaServiceB (scenario_lib False)
        (scenario_env ''k'' ''20'' (ok_response []))
        (Inr (JObject [(''cep'', JString ''01001000'')])) new_writer fresh))
       = [SpanStart 0 ''HTTP GET'', SpanEnd 0]
   \<and> new_events fresh (snd (GetWeatherHandler (scenario_lib False)
        (scenario_env ''k'' ''20'' (ok_response [])) ''01001000'' new_writer fresh))
       = [SetAttributes ''cep'' ''01001000'', SpanStart 0 ''fetchLocation-viacep'', SpanEnd 0,
          SpanStart 1 ''fetchWeather-weatherapi'', SpanEnd 1]"
proof -
  have d: "Decode (Inr (JObject [(''cep'', JString ''01001000'')])) = Inr \<lparr>CEP = ''01001000''\<rparr>"
    by (simp add: Decode_def is_cep_key_def ascii_lower_def)
  have v: "gateway_isValidCEP (CEP \<lparr>CEP = ''01001000''\<rparr>)"
    by (simp add: valid_01001000)
  have n: "NewRequest_error (scenario_lib False)
      (''http://service-b:8081/weather/'' @ CEP \<lparr>CEP = ''01001000''\<rparr>) = None"
    by (simp add: scenario_lib_def NewRequest_error_def)
  have h: "new_events fresh (snd (GetWeatherHandler (scenario_lib False)
        (scenario_env ''k'' ''20'' (ok_response [])) ''01001000'' new_writer fresh))
       = [SetAttributes ''cep'' ''01001000'', SpanStart 0 ''fetchLocation-viacep'', SpanEnd 0,
          SpanStart 1 ''fetchWeather-weatherapi'', SpanEnd 1]"
    by (simp add: new_events_def GetWeatherHandler_events valid_01001000 scenario_location
        fresh_def)
  show ?thesis
    using spans_closed_exactly_once [where st = fresh and l = "scenario_lib False"
        and e = "scenario_env ''k'' ''20'' (ok_response [])"
        and b = "Inr (JObject [(''cep'', JString ''01001000'')])"
        and req = "\<lparr>CEP = ''01001000''\<rparr>" and w = new_writer] d v n h
    by (simp add: fresh_def)
qed

text \<open>
  C7.  With the variable \<^verbatim>\<open>WEATHER_API_KEY\<close> empty, \<^verbatim>\<open>fetchWeather\<close> returns its
  configuration error and has requested nothing over the network; a request with a
  valid postal code whose locality was resolved is answered with status 500 and that
  error as its one line, and the only network request made for it is the address lookup.
\<close>

theorem missing_credential_500:
  assumes "WEATHER_API_KEY e = []"
  shows "fst (fetchWeather l e city st) = Inl key_missing_text
    \<and> requests (snd (fetchWeather l e city st)) = requests st
    \<and> (isValidCEP cep \<and> fst (fetchLocation l e cep sa) = Inr location \<longrightarrow>
         status (fst (GetWeatherHandler l e cep new_writer st)) = 500
         \<and> body (fst (GetWeatherHandler l e cep new_writer st)) = text_line key_missing_text
         \<and> requests (snd (GetWeatherHandler l e cep new_writer st)) =
             requests st @ [''https://viacep.com.br/ws/'' @ cep @ ''/json/''])"
proof -
  have a: "fst (fetchWeather l e city st) = Inl key_missing_text"
    "requests (snd (fetchWeather l e city st)) = requests st"
    using assms by (simp_all add: fetchWeather_no_key)
  have b: "status (fst (GetWeatherHandler l e cep new_writer st)) = 500
         \<and> body (fst (GetWeatherHandler l e cep new_writer st)) = text_line key_missing_text"
    if v: "isValidCEP cep" and f: "fst (fetchLocation l e cep sa) = Inr location"
    using f fetchWeather_no_key(1) [OF assms, of l "Localidade location" st]
    by (simp add: GetWeatherHandler_response [where l = l and e = e and w = new_writer and st = st and sa = sa and sb = st, OF v]
        http_Error_new_writer StatusInternalServerError_def)
  have c: "requests (snd (GetWeatherHandler l e cep new_writer st)) =
             requests st @ [''https://viacep.com.br/ws/'' @ cep @ ''/json/'']"
    if v: "isValidCEP cep" and f: "fst (fetchLocation l e cep sa) = Inr location"
  proof -
    let ?st0 = "span_SetAttributes ''cep'' cep st"
    obtain r1 st1 where f1: "fetchLocation l e cep ?st0 = (r1, st1)"
      by (cases "fetchLocation l e cep ?st0")
    have r1: "r1 = Inr location"
      using fetchLocation_fst [of l e cep sa sa] fetchLocation_fst [of l e cep ?st0 sa] f1 f
      by simp
    have q1: "requests st1 = requests st @ [''https://viacep.com.br/ws/'' @ cep @ ''/json/'']"
      using fetchLocation_requests [OF f, of ?st0] f1 by (simp add: span_SetAttributes_def)
    obtain r2 st2 where f2: "fetchWeather l e (Localidade location) st1 = (r2, st2)"
      by (cases "fetchWeather l e (Localidade location) st1")
    have r2: "r2 = Inl key_missing_text" and q2: "requests st2 = requests st1"
      using fetchWeather_no_key [OF assms, of l "Localidade location" st1] f2 by simp_all
    show ?thesis using v f1 r1 f2 r2 q1 q2 by (simp add: GetWeatherHandler_def Let_def)
  qed
  from a b c show ?thesis by blast
qed

theorem missing_credential_500_witness:
  "WEATHER_API_KEY (scenario_env [] ''20'' (ok_response [])) = []
   \<and> isValidCEP ''01001000''
   \<and> fst (fetchLocation (scenario_lib False) (scenario_env [] ''20'' (ok_response []))
        ''01001000'' fresh) = Inr \<lparr>Localidade = ''Sao Paulo'', Erro = []\<rparr>
   \<and> fst (fetchWeather (scenario_lib False) (scenario_env [] ''20'' (ok_response []))
        ''Sao Paulo'' fresh) = Inl key_missing_text
   \<and> requests (snd (fetchWeather (scenario_lib False) (scenario_env [] ''20'' (ok_response []))
        ''Sao Paulo'' fresh)) = []
   \<and> status (fst (GetWeatherHandler (scenario_lib False)
        (scenario_env [] ''20'' (ok_response [])) ''01001000'' new_writer fresh)) = 500
   \<and> body (fst (GetWeatherHandler (scenario_lib False)
        (scenario_env [] ''20'' (ok_response [])) ''01001000'' new_writer fresh))
       = text_line key_missing_text
   \<and> requests (snd (GetWeatherHandler (scenario_lib False)
        (scenario_env [] ''20'' (ok_response [])) ''01001000'' new_writer fresh))
       = [''https://viacep.com.br/ws/01001000/json/'']"
proof -
  have k: "WEATHER_API_KEY (scenario_env [] ''20'' (ok_response [])) = []"
    by (simp add: scenario_env_def)
  have loc: "fst (fetchLocation (scenario_lib False) (scenario_env [] ''20'' (ok_response []))
      ''01001000'' fresh) = Inr \<lparr>Localidade = ''Sao Paulo'', Erro = []\<rparr>"
    by (rule scenario_location)
  show ?thesis
    using missing_credential_500 [OF k, where l = "scenario_lib False" and city = "''Sao Paulo''"
        and st = fresh and cep = "''01001000''" and sa = fresh
        and location = "\<lparr>Localidade = ''Sao Paulo'', Erro = []\<rparr>"]
      k loc valid_01001000(1)
    by (simp add: fresh_def)
qed

text \<open>
  C8.  The Orchestrator handler does not emit one complete response on every path.
  When the weather provider reports a temperature of \<open>3 * 2 ^ 1022\<close> (about \<open>1.35e308\<close>),
  the conversion to Fahrenheit overflows.  The status 200 and the JSON content type have
  gone out when the encoder refuses the infinity; the \<^verbatim>\<open>http.Error\<close> that follows cannot
  change them, and the body is its error line.
\<close>

theorem encode_failure_after_status:
  "status (fst (GetWeatherHandler (scenario_lib fused)
      (scenario_env ''k'' ''1.3e308'' (ok_response [])) ''01001000'' new_writer fresh)) = 200
   \<and> sent_header (fst (GetWeatherHandler (scenario_lib fused)
      (scenario_env ''k'' ''1.3e308'' (ok_response [])) ''01001000'' new_writer fresh))
        ''Content-Type'' = Some [''application/json'']
   \<and> body (fst (GetWeatherHandler (scenario_lib fused)
      (scenario_env ''k'' ''1.3e308'' (ok_response [])) ''01001000'' new_writer fresh))
       = text_line ''json: unsupported value: +Inf''"
proof -
  have F: "fahrenheit fused (Finite (3 * 2 ^ 1022)) = PosInf"
    by (cases fused)
      (simp_all only: fahrenheit_def round_f64_18_10 round_f64_32 f64_fma.simps f64_mul.simps
        f64_add.simps round_f64_overflow_mul round_f64_overflow_fma if_True if_False)
  have f: "fused_multiply_add (scenario_lib fused) = fused" by (simp add: scenario_lib_def)
  have enc: "json_Encode (scenario_lib fused)
      \<lparr>City = ''Sao Paulo'', TempC = Finite (3 * 2 ^ 1022), TempF = PosInf,
       TempK = kelvin (Finite (3 * 2 ^ 1022))\<rparr>
      = Inl ''json: unsupported value: +Inf''"
    by (simp add: json_Encode_def is_finite_def FormatFloat_special_def)
  have r: "fst (GetWeatherHandler (scenario_lib fused)
        (scenario_env ''k'' ''1.3e308'' (ok_response [])) ''01001000'' new_writer fresh) =
      http_Error ''json: unsupported value: +Inf'' StatusInternalServerError
        (WriteHeader StatusOK (Header_Set ''Content-Type'' ''application/json'' new_writer))"
    by (simp only: GetWeatherHandler_response [where sa = fresh and sb = fresh,
          OF valid_01001000(1)]
        scenario_location scenario_weather f F enc sum.case ViaCEPResponse.simps
        WeatherAPIResponse.simps)
  show ?thesis
    by (simp add: r http_Error_after_header success_writer)
qed

text \<open>
  C9.  Two runs of the Orchestrator handler on the same postal code, in surroundings
  that may differ but in which the two adapters return the same locality name and the
  same temperature, produce the same response: status, headers and body.
\<close>

theorem handler_deterministic:
  assumes "isValidCEP cep"
    and "fst (fetchLocation l e1 cep sa) = Inr location1"
    and "fst (fetchLocation l e2 cep sb) = Inr location2"
    and "Localidade location1 = Localidade location2"
    and "fst (fetchWeather l e1 (Localidade location1) sc) = Inr weather1"
    and "fst (fetchWeather l e2 (Localidade location2) sd) = Inr weather2"
    and "Current_TempC weather1 = Current_TempC weather2"
  shows "fst (GetWeatherHandler l e1 cep new_writer st1) =
         fst (GetWeatherHandler l e2 cep new_writer st2)"
  using assms(2-7)
  by (simp add: GetWeatherHandler_response [where l = l and e = e1 and w = new_writer and st = st1 and sa = sa and sb = sc, OF assms(1)]
      GetWeatherHandler_response [where l = l and e = e2 and w = new_writer and st = st2 and sa = sb and sb = sd, OF assms(1)])

theorem handler_deterministic_witness:
  "isValidCEP ''01001000''
   \<and> fst (fetchLocation (scenario_lib False) (scenario_env ''k1'' ''20'' (ok_response []))
        ''01001000'' fresh) = Inr \<lparr>Localidade = ''Sao Paulo'', Erro = []\<rparr>
   \<and> fst (fetchLocation (scenario_lib False) (scenario_env ''k2'' ''20'' (ok_response ''x''))
        ''01001000'' fresh) = Inr \<lparr>Localidade = ''Sao Paulo'', Erro = []\<rparr>
   \<and> fst (fetchWeather (scenario_lib False) (scenario_env ''k1'' ''20'' (ok_response []))
        ''Sao Paulo'' fresh) = Inr \<lparr>Current_TempC = Finite 20\<rparr>
   \<and> fst (fetchWeather (scenario_lib False) (scenario_env ''k2'' ''20'' (ok_response ''x''))
        ''Sao Paulo'' fresh) = Inr \<lparr>Current_TempC = Finite 20\<rparr>
   \<and> fst (GetWeatherHandler (scenario_lib False) (scenario_env ''k1'' ''20'' (ok_response []))
        ''01001000'' new_writer fresh)
     = fst (GetWeatherHandler (scenario_lib False) (scenario_env ''k2'' ''20'' (ok_response ''x''))
        ''01001000'' new_writer \<lparr>requests = [''earlier''], events = [SetAttributes ''a'' ''b'']\<rparr>)"
proof -
  let ?loc = "\<lparr>Localidade = ''Sao Paulo'', Erro = []\<rparr>"
  let ?wth = "\<lparr>Current_TempC = Finite 20\<rparr>"
  have l1: "fst (fetchLocation (scenario_lib False) (scenario_env ''k1'' ''20'' (ok_response []))
        ''01001000'' fresh) = Inr ?loc"
    and l2: "fst (fetchLocation (scenario_lib False) (scenario_env ''k2'' ''20'' (ok_response ''x''))
        ''01001000'' fresh) = Inr ?loc"
    by (rule scenario_location)+
  have w1: "fst (fetchWeather (scenario_lib False) (scenario_env ''k1'' ''20'' (ok_response []))
        (Localidade ?loc) fresh) = Inr ?wth"
    and w2: "fst (fetchWeather (scenario_lib False) (scenario_env ''k2'' ''20'' (ok_response ''x''))
        (Localidade ?loc) fresh) = Inr ?wth"
    by (simp_all add: scenario_weather)
  show ?thesis
    using handler_deterministic [OF valid_01001000(1) l1 l2 refl w1 w2 refl,
        where ?st1.0 = fresh
          and ?st2.0 = "\<lparr>requests = [''earlier''], events = [SetAttributes ''a'' ''b'']\<rparr>"]
      l1 l2 w1 w2 valid_01001000(1)
    by simp
qed

text \<open>
  C10 (amended).  A request body that is the JSON value \<^verbatim>\<open>null\<close>, or a JSON object in
  which every member keyed \<^verbatim>\<open>cep\<close> (in any letter case) is the empty string or \<^verbatim>\<open>null\<close>
  (in particular an object without such a member), decodes to the empty postal code;
  the Gateway answers 422 with the one line \<^verbatim>\<open>invalid zipcode\<close>, not 400, and calls nothing.
\<close>

theorem missing_cep_is_invalid_zipcode:
  assumes "lacks_cep j"
  shows "Decode (Inr j) = Inr \<lparr>CEP = []\<rparr>
    \<and> status (fst (GetWeatherViaServiceB l e (Inr j) new_writer st)) = 422
    \<and> body (fst (GetWeatherViaServiceB l e (Inr j) new_writer st)) = text_line ''invalid zipcode''
    \<and> snd (GetWeatherViaServiceB l e (Inr j) new_writer st) = st"
  using Decode_lacking [OF assms] empty_not_valid
  by (simp add: GetWeatherViaServiceB_def http_Error_new_writer StatusUnprocessableEntity_def)

theorem missing_cep_is_invalid_zipcode_witness:
  "lacks_cep (JObject [(''city'', JString ''Sao Paulo''), (''CEP'', JString [])])
   \<and> Decode (Inr (JObject [(''city'', JString ''Sao Paulo''), (''CEP'', JString [])]))
       = Inr \<lparr>CEP = []\<rparr>
   \<and> status (fst (GetWeatherViaServiceB (scenario_lib False)
        (scenario_env ''k'' ''20'' (ok_response []))
        (Inr (JObject [(''city'', JString ''Sao Paulo''), (''CEP'', JString [])]))
        new_writer fresh)) = 422
   \<and> body (fst (GetWeatherViaServiceB (scenario_lib False)
        (scenario_env ''k'' ''20'' (ok_response []))
        (Inr (JObject [(''city'', JString ''Sao Paulo''), (''CEP'', JString [])]))
        new_writer fresh)) = text_line ''invalid zipcode''
   \<and> snd (GetWeatherViaServiceB (scenario_lib False)
        (scenario_env ''k'' ''20'' (ok_response []))
        (Inr (JObject [(''city'', JString ''Sao Paulo''), (''CEP'', JString [])]))
        new_writer fresh) = fresh"
proof -
  have h: "lacks_cep (JObject [(''city'', JString ''Sao Paulo''), (''CEP'', JString [])])"
    by (simp add: lacks_cep_def is_cep_key_def ascii_lower_def)
  show ?thesis
    using missing_cep_is_invalid_zipcode [OF h, where l = "scenario_lib False"
        and e = "scenario_env ''k'' ''20'' (ok_response [])" and st = fresh] h
    by simp
qed

theorem missing_cep_is_invalid_zipcode_counterexample:
  "Decode (Inr (JArray [])) =
     Inl ''json: cannot unmarshal array into Go value of type main.CEPRequest''
   \<and> status (fst (GetWeatherViaServiceB (scenario_lib False)
        (scenario_env ''k'' ''20'' (ok_response [])) (Inr (JArray [])) new_writer fresh)) = 400
   \<and> body (fst (GetWeatherViaServiceB (scenario_lib False)
        (scenario_env ''k'' ''20'' (ok_response [])) (Inr (JArray [])) new_writer fresh))
       = text_line ''invalid request body''"
  by (simp add: Decode_def GetWeatherViaServiceB_def http_Error_new_writer StatusBadRequest_def)

end
